theory Spec2Isabelle
  imports Main
begin

section \<open>JavaScript values\<close>

text \<open>
  The values a JSON request body, the controller's locals and the record handed to the
  store can hold. \<open>JNum\<close> stands for an integer-valued number whose \<open>String\<close> form is its
  decimal numeral; fractions are outside the model. \<open>JNaN\<close> is what \<open>parseInt\<close> gives when
  nothing parses, \<open>JDate\<close> a \<open>Date\<close> object (milliseconds since the epoch), \<open>JObject\<close> any
  object or function (such as the members a plain object inherits from
  \<open>Object.prototype\<close>). A string is the list of its code units.
\<close>

datatype jsval =
    JUndefined
  | JNull
  | JBool bool
  | JNum int
  | JNaN
  | JStr string
  | JDate nat
  | JObject

fun truthy :: "jsval \<Rightarrow> bool" where
  "truthy JUndefined = False"
| "truthy JNull = False"
| "truthy (JBool b) = b"
| "truthy (JNum n) = (n \<noteq> 0)"
| "truthy JNaN = False"
| "truthy (JStr s) = (s \<noteq> [])"
| "truthy (JDate t) = True"
| "truthy JObject = True"

text \<open>\<^verbatim>\<open>a || b\<close> and the destructuring default \<^verbatim>\<open>x = d\<close> (taken only for \<open>undefined\<close>).\<close>

definition js_or :: "jsval \<Rightarrow> jsval \<Rightarrow> jsval" where
  "js_or a b = (if truthy a then a else b)"

definition or_default :: "jsval \<Rightarrow> jsval \<Rightarrow> jsval" where
  "or_default x d = (if x = JUndefined then d else x)"

text \<open>What the code can throw and what the \<^verbatim>\<open>catch\<close> blocks tell apart by \<^verbatim>\<open>error.name\<close>.\<close>

datatype exn =
    TypeError
  | IOError
  | SequelizeUniqueConstraintError
  | SequelizeValidationError "string list"
  | SequelizeDatabaseError

subsection \<open>Decimal numerals and \<^verbatim>\<open>parseInt\<close>\<close>

definition digit_char :: "nat \<Rightarrow> char" where
  "digit_char d = ''0123456789'' ! d"

function string_of_nat :: "nat \<Rightarrow> string" where
  "string_of_nat n =
     (if n < 10 then [digit_char n] else string_of_nat (n div 10) @ [digit_char (n mod 10)])"
  by pat_completeness auto
termination
  by (relation "measure id") auto

declare string_of_nat.simps [simp del]

text \<open>The white space \<^verbatim>\<open>parseInt\<close> skips, among the code units below 256.\<close>

definition is_space :: "char \<Rightarrow> bool" where
  "is_space c = ((of_char c :: nat) \<in> {9, 10, 11, 12, 13, 32, 160})"

definition digit_value :: "char \<Rightarrow> nat option" where
  "digit_value c =
     (let k = (of_char c :: nat) in
      if 48 \<le> k \<and> k \<le> 57 then Some (k - 48)
      else if 97 \<le> k \<and> k \<le> 102 then Some (k - 87)
      else if 65 \<le> k \<and> k \<le> 70 then Some (k - 55)
      else None)"

definition is_digit_in :: "nat \<Rightarrow> char \<Rightarrow> bool" where
  "is_digit_in radix c = (case digit_value c of None \<Rightarrow> False | Some d \<Rightarrow> d < radix)"

definition digits_value :: "nat \<Rightarrow> string \<Rightarrow> nat" where
  "digits_value radix ds =
     foldl (\<lambda>acc c. acc * radix + (case digit_value c of None \<Rightarrow> 0 | Some d \<Rightarrow> d)) 0 ds"

definition parse_digits :: "nat \<Rightarrow> string \<Rightarrow> int option" where
  "parse_digits radix s =
     (let ds = takeWhile (is_digit_in radix) s
      in if ds = [] then None else Some (int (digits_value radix ds)))"

definition parse_unsigned :: "string \<Rightarrow> int option" where
  "parse_unsigned s =
     (case s of
        c0 # cx # rest \<Rightarrow>
          (if c0 = CHR ''0'' \<and> (cx = CHR ''x'' \<or> cx = CHR ''X'')
           then parse_digits 16 rest else parse_digits 10 s)
      | _ \<Rightarrow> parse_digits 10 s)"

definition parseInt_string :: "string \<Rightarrow> jsval" where
  "parseInt_string s =
     (let t = dropWhile is_space s;
          (neg, u) = (case t of
                        c # r \<Rightarrow> (if c = CHR ''-'' then (True, r)
                                   else if c = CHR ''+'' then (False, r) else (False, t))
                      | [] \<Rightarrow> (False, t))
      in case parse_unsigned u of
           None \<Rightarrow> JNaN
         | Some n \<Rightarrow> JNum (if neg then - n else n))"

fun parseInt :: "jsval \<Rightarrow> jsval" where
  "parseInt (JNum n) = JNum n"
| "parseInt (JStr s) = parseInt_string s"
| "parseInt v = JNaN"

fun js_join :: "string \<Rightarrow> string list \<Rightarrow> string" where
  "js_join sep [] = []"
| "js_join sep [x] = x"
| "js_join sep (x # y # ys) = x @ sep @ js_join sep (y # ys)"

section \<open>The document record\<close>

text \<open>
  The sixteen attributes a create request may carry (\<^verbatim>\<open>req.body\<close>), the object the
  controller prepares for the store (\<^verbatim>\<open>dbData\<close>: the same attributes and the two time
  stamps), and a row of the table (with its surrogate key).
\<close>

record attrs =
  doc_id :: jsval
  doc_type :: jsval
  doc_title :: jsval
  revision_no :: jsval
  year :: jsval
  quarter :: jsval
  owner :: jsval
  status :: jsval
  doc_status :: jsval
  is_uploaded :: jsval
  uploaded_file :: jsval
  file_type :: jsval
  file_size :: jsval
  storage_path :: jsval
  download_url :: jsval
  uploaded_at :: jsval

record dbData = attrs +
  created_at :: jsval
  updated_at :: jsval

record row = dbData +
  row_id :: nat

section \<open>Responses\<close>

record upload_info =
  fileName :: string
  originalName :: string
  fileSize :: nat
  fileType :: string
  storagePath :: string
  downloadUrl :: string

text \<open>
  The JSON bodies the handlers send. The \<^verbatim>\<open>error\<close> detail string of the 500 answers is
  not kept (it depends on the environment variable \<^verbatim>\<open>NODE_ENV\<close>).
\<close>

datatype payload =
    Message string
  | ErrorMessage string
  | Exists bool
  | Created string row
  | Data row
  | Listing "row list"
  | ValidationFailed string "string list"
  | ServerError string
  | UploadFailed string
  | UploadDone string upload_info
  | Download string
  | PlainText string

record response =
  http_status :: nat
  payload :: payload

definition respond :: "nat \<Rightarrow> payload \<Rightarrow> response" where
  "respond code p = \<lparr>http_status = code, payload = p\<rparr>"

text \<open>\<^verbatim>\<open>response.ok\<close> of the browser's \<^verbatim>\<open>fetch\<close>.\<close>

definition response_ok :: "response \<Rightarrow> bool" where
  "response_ok r = (200 \<le> http_status r \<and> http_status r \<le> 299)"

section \<open>The world the handlers act on\<close>

text \<open>
  The Document Store is the table \<^verbatim>\<open>masterplandocs\<close> with its auto-increment counter; the
  File Store is a tree of directories and files, addressed by the list of the path's
  segments. \<open>writable\<close> says whether the disk takes writes (a write on a disk that does
  not throws). \<open>clock\<close> is what \<^verbatim>\<open>new Date()\<close> and \<^verbatim>\<open>Date.now()\<close> read while the request is
  handled, \<open>dirname\<close> the controller's \<^verbatim>\<open>__dirname\<close> (an absolute path).
\<close>

record world =
  table :: "row list"
  auto_increment :: nat
  dirs :: "string list set"
  files :: "string list \<rightharpoonup> string"
  writable :: bool
  clock :: nat
  dirname :: string

section \<open>The Document Store\<close>

text \<open>
  The model \<^verbatim>\<open>MasterPlanDoc\<close> of \<^verbatim>\<open>app/models/masterplandoc.js\<close>: every column with its
  type and \<^verbatim>\<open>allowNull\<close>. The calls \<^verbatim>\<open>findOne\<close>, \<^verbatim>\<open>findByPk\<close>, \<^verbatim>\<open>findAll\<close> and \<^verbatim>\<open>create\<close>
  belong to the ORM and the database engine, which are outside the repository; they are
  modelled by what the declared schema demands. The store takes a value of the column's
  own type only (a string for \<^verbatim>\<open>STRING\<close> and, as JSON has no dates, for \<^verbatim>\<open>DATE\<close>); the
  implicit conversions of other values are outside the model, and a row holding one is
  refused. Strings are compared exactly, and the connection to the store is taken to
  work: the calls fail only as the schema makes them fail.
\<close>

datatype coltype = STRING nat | INTEGER | BIGINT | BOOLEAN | DATE

definition columns :: "(string \<times> (row \<Rightarrow> jsval) \<times> coltype \<times> bool) list" where
  "columns =
    [(''doc_id'', doc_id, STRING 50, False),
     (''doc_type'', doc_type, STRING 100, False),
     (''doc_title'', doc_title, STRING 255, False),
     (''revision_no'', revision_no, STRING 20, False),
     (''year'', year, INTEGER, False),
     (''quarter'', quarter, STRING 10, True),
     (''owner'', owner, STRING 150, False),
     (''status'', status, STRING 50, False),
     (''doc_status'', doc_status, STRING 50, True),
     (''is_uploaded'', is_uploaded, BOOLEAN, True),
     (''uploaded_file'', uploaded_file, STRING 255, True),
     (''file_type'', file_type, STRING 150, True),
     (''file_size'', file_size, BIGINT, True),
     (''storage_path'', storage_path, STRING 500, True),
     (''download_url'', download_url, STRING 500, True),
     (''uploaded_at'', uploaded_at, DATE, True),
     (''created_at'', created_at, DATE, False),
     (''updated_at'', updated_at, DATE, False)]"

definition is_nullish :: "jsval \<Rightarrow> bool" where
  "is_nullish v = (v = JUndefined \<or> v = JNull)"

definition is_string_type :: "coltype \<Rightarrow> bool" where
  "is_string_type t = (case t of STRING n \<Rightarrow> True | _ \<Rightarrow> False)"

text \<open>
  The ORM's own validation before the insert: a \<open>notNull\<close> violation for a column that
  does not allow null, a \<open>string\<close> violation for an object in a string column.
\<close>

definition violates :: "row \<Rightarrow> (string \<times> (row \<Rightarrow> jsval) \<times> coltype \<times> bool) \<Rightarrow> bool" where
  "violates r c =
     (case c of (name, get, t, allowNull) \<Rightarrow>
        (\<not> allowNull \<and> is_nullish (get r)) \<or>
        (is_string_type t \<and> (case get r of JObject \<Rightarrow> True | JDate d \<Rightarrow> True | _ \<Rightarrow> False)))"

definition validation_errors :: "row \<Rightarrow> string list" where
  "validation_errors r = map fst (filter (violates r) columns)"

text \<open>What the engine takes into a column of a given type.\<close>

fun fits :: "coltype \<Rightarrow> jsval \<Rightarrow> bool" where
  "fits t JUndefined = True"
| "fits t JNull = True"
| "fits (STRING n) (JStr s) = (length s \<le> n)"
| "fits INTEGER (JNum i) = (- (2 ^ 31) \<le> i \<and> i < 2 ^ 31)"
| "fits BIGINT (JNum i) = (- (2 ^ 63) \<le> i \<and> i < 2 ^ 63)"
| "fits BOOLEAN (JBool b) = True"
| "fits DATE (JDate d) = True"
| "fits DATE (JStr s) = True"
| "fits t v = False"

definition column_fits :: "row \<Rightarrow> (string \<times> (row \<Rightarrow> jsval) \<times> coltype \<times> bool) \<Rightarrow> bool" where
  "column_fits r c = (case c of (name, get, t, allowNull) \<Rightarrow> fits t (get r))"

definition findOne_doc_id :: "row list \<Rightarrow> jsval \<Rightarrow> row option" where
  "findOne_doc_id tbl d = find (\<lambda>r. doc_id r = d) tbl"

text \<open>
  \<^verbatim>\<open>findByPk\<close> with the string taken from the URL: the row whose key has this decimal
  numeral.
\<close>

definition findByPk :: "row list \<Rightarrow> string \<Rightarrow> row option" where
  "findByPk tbl k = find (\<lambda>r. string_of_nat (row_id r) = k) tbl"

fun date_ms :: "jsval \<Rightarrow> nat" where
  "date_ms (JDate t) = t"
| "date_ms v = 0"

definition findAll_desc :: "row list \<Rightarrow> row list" where
  "findAll_desc tbl = rev (sort_key (\<lambda>r. date_ms (created_at r)) tbl)"

text \<open>SQL has no \<open>undefined\<close>: such a value is written as \<open>NULL\<close>.\<close>

definition sql :: "jsval \<Rightarrow> jsval" where
  "sql v = (if v = JUndefined then JNull else v)"

definition persisted :: "row \<Rightarrow> row" where
  "persisted r =
     r\<lparr>quarter := sql (quarter r), doc_status := sql (doc_status r),
       is_uploaded := sql (is_uploaded r), uploaded_file := sql (uploaded_file r),
       file_type := sql (file_type r), file_size := sql (file_size r),
       storage_path := sql (storage_path r), download_url := sql (download_url r),
       uploaded_at := sql (uploaded_at r)\<rparr>"

text \<open>
  \<^verbatim>\<open>MasterPlanDoc.create\<close>: the instance is built from the values given, with the declared
  \<^verbatim>\<open>defaultValue\<close> where a value is \<open>undefined\<close>; it is validated, checked against the
  columns and the unique index on \<open>doc_id\<close>, and inserted under the next key. The call
  returns the instance (the values as given, the key set).
\<close>

definition build :: "nat \<Rightarrow> nat \<Rightarrow> dbData \<Rightarrow> row" where
  "build key now d =
     \<lparr>doc_id = doc_id d,
      doc_type = doc_type d,
      doc_title = doc_title d,
      revision_no = revision_no d,
      year = year d,
      quarter = quarter d,
      owner = owner d,
      status = status d,
      doc_status = or_default (doc_status d) (JStr ''Open''),
      is_uploaded = or_default (is_uploaded d) (JBool False),
      uploaded_file = uploaded_file d,
      file_type = file_type d,
      file_size = file_size d,
      storage_path = storage_path d,
      download_url = download_url d,
      uploaded_at = uploaded_at d,
      created_at = or_default (created_at d) (JDate now),
      updated_at = or_default (updated_at d) (JDate now),
      row_id = key\<rparr>"

definition MasterPlanDoc_create :: "world \<Rightarrow> dbData \<Rightarrow> exn + (world \<times> row)" where
  "MasterPlanDoc_create w d =
     (let inst = build (auto_increment w) (clock w) d in
      if validation_errors inst \<noteq> [] then Inl (SequelizeValidationError (validation_errors inst))
      else if \<not> list_all (column_fits inst) columns then Inl SequelizeDatabaseError
      else if findOne_doc_id (table w) (doc_id inst) \<noteq> None then Inl SequelizeUniqueConstraintError
      else Inr (w\<lparr>table := table w @ [persisted inst],
                    auto_increment := Suc (auto_increment w)\<rparr>, inst))"

section \<open>The controller: creating a document\<close>

text \<open>
  \<^verbatim>\<open>simplifyFileType\<close>. The look-up \<^verbatim>\<open>typeMap[fileType]\<close> in the object literal finds its six
  own keys and, for the names below, the members inherited from \<^verbatim>\<open>Object.prototype\<close>,
  which are objects. \<^verbatim>\<open>substring\<close> exists on strings only; calling it on another truthy
  value throws.
\<close>

definition typeMap :: "(string \<times> string) list" where
  "typeMap =
    [(''application/vnd.openxmlformats-officedocument.wordprocessingml.document'', ''docx''),
     (''application/vnd.openxmlformats-officedocument.spreadsheetml.sheet'', ''xlsx''),
     (''application/vnd.openxmlformats-officedocument.presentationml.presentation'', ''pptx''),
     (''application/msword'', ''doc''),
     (''application/pdf'', ''pdf''),
     (''text/plain'', ''txt'')]"

definition object_prototype_keys :: "string list" where
  "object_prototype_keys =
    [''constructor'', ''__defineGetter__'', ''__defineSetter__'', ''hasOwnProperty'',
     ''__lookupGetter__'', ''__lookupSetter__'', ''isPrototypeOf'', ''propertyIsEnumerable'',
     ''toString'', ''valueOf'', ''__proto__'', ''toLocaleString'']"

definition typeMap_lookup :: "string \<Rightarrow> jsval" where
  "typeMap_lookup k =
     (case map_of typeMap k of
        Some v \<Rightarrow> JStr v
      | None \<Rightarrow> if k \<in> set object_prototype_keys then JObject else JUndefined)"

fun simplifyFileType :: "jsval \<Rightarrow> exn + jsval" where
  "simplifyFileType (JStr s) =
     (if s = [] then Inr JNull
      else Inr (js_or (typeMap_lookup s) (JStr (take 20 s))))"
| "simplifyFileType v = (if \<not> truthy v then Inr JNull else Inl TypeError)"

text \<open>\<^verbatim>\<open>v?.substring(0, n)\<close>\<close>

fun optional_substring :: "jsval \<Rightarrow> nat \<Rightarrow> exn + jsval" where
  "optional_substring JUndefined n = Inr JUndefined"
| "optional_substring JNull n = Inr JUndefined"
| "optional_substring (JStr s) n = Inr (JStr (take n s))"
| "optional_substring v n = Inl TypeError"

definition prepared_file_type :: "jsval \<Rightarrow> exn + jsval" where
  "prepared_file_type ft =
     (case simplifyFileType ft of
        Inl e \<Rightarrow> Inl e
      | Inr v \<Rightarrow> if truthy v then Inr v else optional_substring ft 50)"

definition requiredFields :: "attrs \<Rightarrow> (string \<times> jsval) list" where
  "requiredFields b =
    [(''doc_id'', doc_id b), (''doc_type'', doc_type b), (''doc_title'', doc_title b),
     (''revision_no'', revision_no b), (''year'', year b), (''owner'', owner b),
     (''status'', status b)]"

definition missingFields :: "attrs \<Rightarrow> string list" where
  "missingFields b = map fst (filter (\<lambda>(key, value). \<not> truthy value) (requiredFields b))"

text \<open>The object \<^verbatim>\<open>dbData\<close>, or the exception its evaluation throws.\<close>

definition prepare :: "nat \<Rightarrow> attrs \<Rightarrow> exn + dbData" where
  "prepare now b =
     (case prepared_file_type (file_type b) of
        Inl e \<Rightarrow> Inl e
      | Inr ft \<Rightarrow>
          Inr \<lparr>doc_id = doc_id b,
               doc_type = doc_type b,
               doc_title = doc_title b,
               revision_no = revision_no b,
               year = parseInt (year b),
               quarter = js_or (quarter b) JNull,
               owner = owner b,
               status = status b,
               doc_status = or_default (doc_status b) (JStr ''Open''),
               is_uploaded = JBool (truthy (or_default (is_uploaded b) (JBool False))),
               uploaded_file = js_or (uploaded_file b) JNull,
               file_type = ft,
               file_size = (if truthy (file_size b) then parseInt (file_size b) else JNull),
               storage_path = js_or (storage_path b) JNull,
               download_url = js_or (download_url b) JNull,
               uploaded_at = js_or (uploaded_at b) JNull,
               created_at = JDate now,
               updated_at = JDate now\<rparr>)"

text \<open>The \<^verbatim>\<open>catch\<close> block of \<^verbatim>\<open>createMasterPlanDoc\<close>.\<close>

fun create_failed :: "exn \<Rightarrow> response" where
  "create_failed SequelizeUniqueConstraintError =
     respond 400 (Message ''Document ID already exists in database'')"
| "create_failed (SequelizeValidationError errs) =
     respond 400 (ValidationFailed ''Data validation failed'' errs)"
| "create_failed SequelizeDatabaseError =
     respond 400 (Message ''Database error - check field types and constraints'')"
| "create_failed e =
     respond 500 (ServerError ''Internal server error while saving to database'')"

definition createMasterPlanDoc :: "world \<Rightarrow> attrs \<Rightarrow> world \<times> response" where
  "createMasterPlanDoc w b =
     (if length (missingFields b) > 0 then
        (w, respond 400 (Message (''Missing required fields: '' @ js_join '', '' (missingFields b))))
      else case findOne_doc_id (table w) (doc_id b) of
        Some existingDoc \<Rightarrow> (w, respond 400 (Message ''Document ID already exists''))
      | None \<Rightarrow>
          (case prepare (clock w) b of
             Inl e \<Rightarrow> (w, create_failed e)
           | Inr d \<Rightarrow>
               (case MasterPlanDoc_create w d of
                  Inl e \<Rightarrow> (w, create_failed e)
                | Inr (w', masterPlanDoc) \<Rightarrow>
                    (w', respond 201
                           (Created ''Master Plan Document created successfully'' masterPlanDoc)))))"

section \<open>Paths and the File Store\<close>

text \<open>
  The functions of Node's \<^verbatim>\<open>path\<close> module the controller calls, in their POSIX form, and
  the file-system calls. The file system resolves a path to its list of segments.
\<close>

fun split_on :: "char \<Rightarrow> string \<Rightarrow> string list" where
  "split_on c [] = [[]]"
| "split_on c (x # xs) =
     (if x = c then [] # split_on c xs
      else (case split_on c xs of h # t \<Rightarrow> (x # h) # t | [] \<Rightarrow> [[x]]))"

definition normalize_step :: "bool \<Rightarrow> string list \<Rightarrow> string \<Rightarrow> string list" where
  "normalize_step allowAboveRoot acc seg =
     (if seg = [] \<or> seg = ''.'' then acc
      else if seg = ''..'' then
        (if acc \<noteq> [] \<and> last acc \<noteq> ''..'' then butlast acc
         else if allowAboveRoot then acc @ [''..''] else acc)
      else acc @ [seg])"

definition segments :: "bool \<Rightarrow> string \<Rightarrow> string list" where
  "segments allowAboveRoot p = foldl (normalize_step allowAboveRoot) [] (split_on CHR ''/'' p)"

definition path_normalize :: "string \<Rightarrow> string" where
  "path_normalize p =
     (if p = [] then ''.''
      else
        (let isAbsolute = (hd p = CHR ''/'');
             trailingSeparator = (last p = CHR ''/'');
             q = js_join ''/'' (segments (\<not> isAbsolute) p)
         in if q = [] then (if isAbsolute then ''/'' else if trailingSeparator then ''./'' else ''.'')
            else (if isAbsolute then ''/'' else []) @ q @ (if trailingSeparator then ''/'' else [])))"

definition path_join :: "string list \<Rightarrow> string" where
  "path_join args =
     (let joined = js_join ''/'' (filter (\<lambda>a. a \<noteq> []) args)
      in if joined = [] then ''.'' else path_normalize joined)"

definition last_component :: "string \<Rightarrow> string" where
  "last_component p =
     rev (takeWhile (\<lambda>c. c \<noteq> CHR ''/'') (dropWhile (\<lambda>c. c = CHR ''/'') (rev p)))"

definition path_extname :: "string \<Rightarrow> string" where
  "path_extname p =
     (let c = last_component p in
      if CHR ''.'' \<notin> set c \<or> c = ''..'' then []
      else
        (let e = rev (takeWhile (\<lambda>x. x \<noteq> CHR ''.'') (rev c))
         in if length c - length e - 1 = 0 then [] else CHR ''.'' # e))"

definition ends_with :: "string \<Rightarrow> string \<Rightarrow> bool" where
  "ends_with s suffix =
     (length suffix \<le> length s \<and> drop (length s - length suffix) s = suffix)"

definition path_basename :: "string \<Rightarrow> string \<Rightarrow> string" where
  "path_basename p suffix =
     (let c = last_component p in
      if suffix = [] \<or> length p < length suffix then c
      else if suffix = p then []
      else if c = suffix then c
      else if ends_with c suffix then take (length c - length suffix) c
      else if ends_with suffix c then
        drop (length (dropWhile (\<lambda>x. x \<noteq> CHR ''/'')
                        (dropWhile (\<lambda>x. x = CHR ''/'') (rev p)))) p
      else c)"

definition fs_key :: "string \<Rightarrow> string list" where
  "fs_key p = segments False p"

definition existsSync :: "world \<Rightarrow> string \<Rightarrow> bool" where
  "existsSync w p = (fs_key p = [] \<or> fs_key p \<in> dirs w \<or> files w (fs_key p) \<noteq> None)"

definition ancestors :: "string list \<Rightarrow> string list list" where
  "ancestors segs = map (\<lambda>n. take n segs) [1 ..< Suc (length segs)]"

text \<open>\<^verbatim>\<open>fs.mkdirSync(p, { recursive: true })\<close>\<close>

definition mkdirSync :: "world \<Rightarrow> string \<Rightarrow> exn + world" where
  "mkdirSync w p =
     (if \<not> writable w then Inl IOError
      else Inr (w\<lparr>dirs := dirs w \<union> set (ancestors (fs_key p))\<rparr>))"

definition uploadsDir_path :: "world \<Rightarrow> string" where
  "uploadsDir_path w = path_join [dirname w, ''../../uploads/master-plans'']"

definition ensureUploadsDir :: "world \<Rightarrow> exn + world" where
  "ensureUploadsDir w =
     (if \<not> existsSync w (uploadsDir_path w) then mkdirSync w (uploadsDir_path w) else Inr w)"

section \<open>The controller: files\<close>

text \<open>
  An uploaded file as the upload middleware hands it over (\<^verbatim>\<open>req.files.document\<close>), and the
  upload request: the file, if any, and the text fields of the form (\<^verbatim>\<open>req.body\<close>).
\<close>

record upfile =
  up_name :: string
  up_size :: nat
  up_mimetype :: string
  up_data :: string

record upload_request =
  document :: "upfile option"
  body :: attrs

text \<open>\<^verbatim>\<open>document.mv(filePath)\<close>, the middleware being set up with \<^verbatim>\<open>createParentPath\<close>.\<close>

definition mv :: "world \<Rightarrow> upfile \<Rightarrow> string \<Rightarrow> exn + world" where
  "mv w f filePath =
     (if \<not> writable w then Inl IOError
      else Inr (w\<lparr>dirs := dirs w \<union> set (ancestors (butlast (fs_key filePath))),
                    files := (files w)(fs_key filePath \<mapsto> up_data f)\<rparr>))"

definition allowedTypes :: "string list" where
  "allowedTypes =
    [''application/pdf'',
     ''application/msword'',
     ''application/vnd.openxmlformats-officedocument.wordprocessingml.document'',
     ''application/vnd.ms-excel'',
     ''application/vnd.openxmlformats-officedocument.spreadsheetml.sheet'',
     ''application/vnd.ms-powerpoint'',
     ''application/vnd.openxmlformats-officedocument.presentationml.presentation'',
     ''text/plain'']"

definition upload_crashed :: response where
  "upload_crashed = respond 500 (UploadFailed ''File upload failed'')"

definition uniqueFileName_of :: "string \<Rightarrow> string \<Rightarrow> nat \<Rightarrow> string" where
  "uniqueFileName_of d name timestamp =
     (let fileExtension = path_extname name;
          baseName = path_basename name fileExtension
      in d @ ''_'' @ baseName @ ''_'' @ string_of_nat timestamp @ fileExtension)"

definition uploadFile :: "world \<Rightarrow> upload_request \<Rightarrow> world \<times> response" where
  "uploadFile w req =
     (case document req of
        None \<Rightarrow> (w, respond 400 (UploadFailed ''No file uploaded''))
      | Some doc \<Rightarrow>
          if \<not> truthy (doc_id (body req)) \<or> \<not> truthy (doc_type (body req))
             \<or> \<not> truthy (revision_no (body req)) then
            (w, respond 400 (UploadFailed
              ''All metadata (doc_id, doc_type, revision_no) is required for file upload''))
          else if up_size doc > 10 * 1024 * 1024 then
            (w, respond 400 (UploadFailed ''File size must be less than 10MB''))
          else if up_mimetype doc \<notin> set allowedTypes then
            (w, respond 400 (UploadFailed ''File type not supported''))
          else
            (case ensureUploadsDir w of
               Inl e \<Rightarrow> (w, upload_crashed)
             | Inr w1 \<Rightarrow>
                 (case doc_id (body req) of
                    JStr d \<Rightarrow>
                      (let docFolder = path_join [uploadsDir_path w1, d] in
                       case (if \<not> existsSync w1 docFolder then mkdirSync w1 docFolder
                             else Inr w1) of
                         Inl e \<Rightarrow> (w1, upload_crashed)
                       | Inr w2 \<Rightarrow>
                           (let uniqueFileName = uniqueFileName_of d (up_name doc) (clock w);
                                filePath = path_join [docFolder, uniqueFileName]
                            in case mv w2 doc filePath of
                                 Inl e \<Rightarrow> (w2, upload_crashed)
                               | Inr w3 \<Rightarrow>
                                   (w3, respond 200
                                     (UploadDone ''File uploaded successfully and stored permanently''
                                       \<lparr>fileName = uniqueFileName,
                                        originalName = up_name doc,
                                        fileSize = up_size doc,
                                        fileType = up_mimetype doc,
                                        storagePath =
                                          ''/uploads/master-plans/'' @ d @ ''/'' @ uniqueFileName,
                                        downloadUrl =
                                          ''/api/masterplandocs/download/'' @ d @ ''/''
                                            @ uniqueFileName\<rparr>))))
                  | other \<Rightarrow> (w1, upload_crashed))))"

text \<open>
  The route \<^verbatim>\<open>POST /upload\<close>: the router runs the upload middleware first, set up with
  \<^verbatim>\<open>limits: { fileSize: 10 * 1024 * 1024 }\<close> and \<^verbatim>\<open>abortOnLimit: true\<close>. It keeps the file in
  memory and, for a file beyond the limit, answers 413 itself; the controller is not
  called.
\<close>

definition fileSize_limit :: nat where
  "fileSize_limit = 10 * 1024 * 1024"

definition post_upload :: "world \<Rightarrow> upload_request \<Rightarrow> world \<times> response" where
  "post_upload w req =
     (case document req of
        None \<Rightarrow> uploadFile w req
      | Some doc \<Rightarrow>
          if up_size doc > fileSize_limit
          then (w, respond 413 (PlainText ''File size limit has been reached''))
          else uploadFile w req)"

definition downloadFile :: "world \<Rightarrow> string \<Rightarrow> string \<Rightarrow> response" where
  "downloadFile w d f =
     (if d = [] \<or> f = [] then respond 400 (Message ''Document ID and file name are required'')
      else
        (let filePath = path_join [dirname w, ''../../uploads/master-plans'', d, f]
         in if existsSync w filePath then respond 200 (Download filePath)
            else respond 404 (Message ''File not found'')))"

section \<open>The controller: reading documents\<close>

definition checkDocIdExists :: "world \<Rightarrow> string \<Rightarrow> response" where
  "checkDocIdExists w d =
     (if d = [] then respond 400 (ErrorMessage ''Document ID is required'')
      else respond 200 (Exists (findOne_doc_id (table w) (JStr d) \<noteq> None)))"

definition getAllMasterPlanDocs :: "world \<Rightarrow> response" where
  "getAllMasterPlanDocs w = respond 200 (Listing (findAll_desc (table w)))"

definition getMasterPlanDocById :: "world \<Rightarrow> string \<Rightarrow> response" where
  "getMasterPlanDocById w k =
     (case findByPk (table w) k of
        None \<Rightarrow> respond 404 (Message ''Master Plan Document not found'')
      | Some masterPlanDoc \<Rightarrow> respond 200 (Data masterPlanDoc))"

text \<open>
  The \<^verbatim>\<open>GET\<close> routes of \<^verbatim>\<open>app/routes/masterPlanDocs.js\<close>, in their order, on the path below
  the mount point \<^verbatim>\<open>/api/masterplandocs\<close>. A path is matched by its non-empty segments;
  query strings and percent-encoding are outside the model.
\<close>

definition route_get :: "world \<Rightarrow> string \<Rightarrow> response" where
  "route_get w path =
     (let segs = filter (\<lambda>s. s \<noteq> []) (split_on CHR ''/'' path) in
      if length segs = 2 \<and> segs ! 0 = ''check-doc-id'' then checkDocIdExists w (segs ! 1)
      else if segs = [] then getAllMasterPlanDocs w
      else if length segs = 1 then getMasterPlanDocById w (segs ! 0)
      else if length segs = 3 \<and> segs ! 0 = ''download'' then downloadFile w (segs ! 1) (segs ! 2)
      else respond 404 (PlainText ''Cannot GET''))"

section \<open>The client\<close>

text \<open>
  \<^verbatim>\<open>masterPlanDocService.checkDocIdExists\<close> fetches
  \<^verbatim>\<open>${API_BASE_URL}/masterplandocs/${doc_id}\<close> and returns \<^verbatim>\<open>response.ok\<close>. \<^verbatim>\<open>checkDocId\<close> of the
  add-document form, called when the id field loses the focus, sets or clears the error
  of the field; the state here is that error.
\<close>

definition service_checkDocIdExists :: "world \<Rightarrow> string \<Rightarrow> bool" where
  "service_checkDocIdExists w d = response_ok (route_get w (''/'' @ d))"

definition checkDocId :: "world \<Rightarrow> string option \<Rightarrow> string \<Rightarrow> string option" where
  "checkDocId w fieldError d =
     (if d = [] then fieldError
      else if service_checkDocIdExists w d then Some ''Document ID already exists''
      else None)"

section \<open>Notions of the specification and sample data\<close>

text \<open>
  A request body with one key removed; the invariant the specification states for a
  record; a request that supplies the required metadata only; required values of the
  column's type and width; and the sample request of the specification with the worlds
  before and after it.
\<close>

definition without :: "string \<Rightarrow> attrs \<Rightarrow> attrs" where
  "without k b =
     (if k = ''doc_id'' then b\<lparr>doc_id := JUndefined\<rparr>
      else if k = ''doc_type'' then b\<lparr>doc_type := JUndefined\<rparr>
      else if k = ''doc_title'' then b\<lparr>doc_title := JUndefined\<rparr>
      else if k = ''revision_no'' then b\<lparr>revision_no := JUndefined\<rparr>
      else if k = ''year'' then b\<lparr>year := JUndefined\<rparr>
      else if k = ''quarter'' then b\<lparr>quarter := JUndefined\<rparr>
      else if k = ''owner'' then b\<lparr>owner := JUndefined\<rparr>
      else if k = ''status'' then b\<lparr>status := JUndefined\<rparr>
      else if k = ''doc_status'' then b\<lparr>doc_status := JUndefined\<rparr>
      else if k = ''is_uploaded'' then b\<lparr>is_uploaded := JUndefined\<rparr>
      else if k = ''uploaded_file'' then b\<lparr>uploaded_file := JUndefined\<rparr>
      else if k = ''file_type'' then b\<lparr>file_type := JUndefined\<rparr>
      else if k = ''file_size'' then b\<lparr>file_size := JUndefined\<rparr>
      else if k = ''storage_path'' then b\<lparr>storage_path := JUndefined\<rparr>
      else if k = ''download_url'' then b\<lparr>download_url := JUndefined\<rparr>
      else if k = ''uploaded_at'' then b\<lparr>uploaded_at := JUndefined\<rparr>
      else b)"

definition upload_invariant :: "row \<Rightarrow> bool" where
  "upload_invariant r =
     (is_uploaded r \<noteq> JBool True \<or> (storage_path r \<noteq> JNull \<and> uploaded_file r \<noteq> JNull))"

definition only_required :: "attrs \<Rightarrow> bool" where
  "only_required b =
     (quarter b = JUndefined \<and> doc_status b = JUndefined \<and> is_uploaded b = JUndefined \<and>
      uploaded_file b = JUndefined \<and> file_type b = JUndefined \<and> file_size b = JUndefined \<and>
      storage_path b = JUndefined \<and> download_url b = JUndefined \<and> uploaded_at b = JUndefined)"

definition required_fit :: "attrs \<Rightarrow> bool" where
  "required_fit b =
     (fits (STRING 50) (doc_id b) \<and> fits (STRING 100) (doc_type b) \<and>
      fits (STRING 255) (doc_title b) \<and> fits (STRING 20) (revision_no b) \<and>
      fits INTEGER (parseInt (year b)) \<and> fits (STRING 150) (owner b) \<and>
      fits (STRING 50) (status b))"

definition no_attrs :: attrs where
  "no_attrs = \<lparr>doc_id = JUndefined, doc_type = JUndefined, doc_title = JUndefined,
     revision_no = JUndefined, year = JUndefined, quarter = JUndefined, owner = JUndefined,
     status = JUndefined, doc_status = JUndefined, is_uploaded = JUndefined,
     uploaded_file = JUndefined, file_type = JUndefined, file_size = JUndefined,
     storage_path = JUndefined, download_url = JUndefined, uploaded_at = JUndefined\<rparr>"

definition doc1_request :: attrs where
  "doc1_request = no_attrs\<lparr>doc_id := JStr ''DOC-1'', doc_type := JStr ''Policy'',
     doc_title := JStr ''X'', revision_no := JStr ''1.0'', year := JNum 2024,
     owner := JStr ''Ops'', status := JStr ''Draft''\<rparr>"

definition empty_world :: world where
  "empty_world = \<lparr>table = [], auto_increment = 1, dirs = {}, files = Map.empty,
     writable = True, clock = 1700000000000, dirname = ''/srv/app/controllers''\<rparr>"

definition doc1_row :: row where
  "doc1_row = \<lparr>doc_id = JStr ''DOC-1'', doc_type = JStr ''Policy'',
      doc_title = JStr ''X'', revision_no = JStr ''1.0'', year = JNum 2024,
      quarter = JNull, owner = JStr ''Ops'', status = JStr ''Draft'',
      doc_status = JStr ''Open'', is_uploaded = JBool False,
      uploaded_file = JNull, file_type = JNull, file_size = JNull,
      storage_path = JNull, download_url = JNull, uploaded_at = JNull,
      created_at = JDate 1700000000000, updated_at = JDate 1700000000000, row_id = 1\<rparr>"

definition doc1_world :: world where
  "doc1_world = empty_world\<lparr>table := [doc1_row], auto_increment := 2\<rparr>"

definition only_id_request :: attrs where
  "only_id_request = no_attrs\<lparr>doc_id := JStr ''DOC-1''\<rparr>"

definition flagged_request :: attrs where
  "flagged_request = doc1_request\<lparr>is_uploaded := JBool True\<rparr>"

definition flagged_row :: row where
  "flagged_row = doc1_row\<lparr>is_uploaded := JBool True\<rparr>"




text \<open>The record a request with the required metadata only is turned into.\<close>

definition created_from :: "world \<Rightarrow> attrs \<Rightarrow> row" where
  "created_from w b =
     \<lparr>doc_id = doc_id b, doc_type = doc_type b, doc_title = doc_title b,
      revision_no = revision_no b, year = parseInt (year b), quarter = JNull,
      owner = owner b, status = status b, doc_status = JStr ''Open'',
      is_uploaded = JBool False, uploaded_file = JNull, file_type = JUndefined,
      file_size = JNull, storage_path = JNull, download_url = JNull, uploaded_at = JNull,
      created_at = JDate (clock w), updated_at = JDate (clock w),
      row_id = auto_increment w\<rparr>"

text \<open>Sample uploads: a small PDF for \<open>DOC-1\<close>, and the same with a file one byte beyond 10 MiB.\<close>

definition pdf_file :: upfile where
  "pdf_file = \<lparr>up_name = ''my report.pdf'', up_size = 1024,
     up_mimetype = ''application/pdf'', up_data = ''%PDF''\<rparr>"

definition upload_doc1 :: upload_request where
  "upload_doc1 = \<lparr>document = Some pdf_file,
     body = no_attrs\<lparr>doc_id := JStr ''DOC-1'', doc_type := JStr ''Policy'',
                     revision_no := JStr ''1.0''\<rparr>\<rparr>"

definition big_upload :: upload_request where
  "big_upload = upload_doc1\<lparr>document := Some (pdf_file\<lparr>up_size := 10 * 1024 * 1024 + 1\<rparr>)\<rparr>"

text \<open>
  A name that is one segment of a path, and an upload whose \<open>doc_id\<close> is not: \<^verbatim>\<open>../x\<close>.
\<close>

definition plain_segment :: "string \<Rightarrow> bool" where
  "plain_segment s = (s \<noteq> [] \<and> s \<noteq> ''.'' \<and> s \<noteq> ''..'' \<and> CHR ''/'' \<notin> set s)"

definition traversal_upload :: upload_request where
  "traversal_upload = \<lparr>document = Some pdf_file,
     body = no_attrs\<lparr>doc_id := JStr ''../x'', doc_type := JStr ''Policy'',
                     revision_no := JStr ''1.0''\<rparr>\<rparr>"

section \<open>Basic facts\<close>

lemma respond_simps [simp]:
  "http_status (respond c p) = c" "payload (respond c p) = p"
  "(respond c p = respond c' p') = (c = c' \<and> p = p')"
  by (simp_all add: respond_def)

lemma truthy_or_default_False [simp]: "truthy (or_default v (JBool False)) = truthy v"
  by (simp add: or_default_def)

lemma create_failed_not_201 [simp]: "http_status (create_failed e) \<noteq> 201"
  by (cases e) simp_all

lemma MasterPlanDoc_create_Inr:
  assumes "MasterPlanDoc_create w d = Inr (w', inst)"
  shows "inst = build (auto_increment w) (clock w) d"
    and "w' = w\<lparr>table := table w @ [persisted inst], auto_increment := Suc (auto_increment w)\<rparr>"
    and "validation_errors inst = []"
    and "list_all (column_fits inst) columns"
    and "findOne_doc_id (table w) (doc_id inst) = None"
  using assms by (auto simp: MasterPlanDoc_create_def Let_def split: if_splits)

lemma created_cases:
  assumes "createMasterPlanDoc w b = (w', r)" and "http_status r = 201"
  obtains d inst where "missingFields b = []"
    and "findOne_doc_id (table w) (doc_id b) = None"
    and "prepare (clock w) b = Inr d"
    and "MasterPlanDoc_create w d = Inr (w', inst)"
    and "r = respond 201 (Created ''Master Plan Document created successfully'' inst)"
  using assms
  by (auto simp: createMasterPlanDoc_def split: if_splits option.splits sum.splits prod.splits)

lemma falsy_keys_set:
  "set (map fst (filter (\<lambda>(key, value). \<not> truthy value) xs)) =
     {f. \<exists>v. (f, v) \<in> set xs \<and> \<not> truthy v}"
  by (induction xs) auto

lemma missingFields_set:
  "set (missingFields b) = {f. \<exists>v. (f, v) \<in> set (requiredFields b) \<and> \<not> truthy v}"
  unfolding missingFields_def by (rule falsy_keys_set)

lemma missingFields_distinct: "distinct (missingFields b)"
  by (simp add: missingFields_def requiredFields_def)

lemma create_missing:
  "missingFields b \<noteq> [] \<Longrightarrow> createMasterPlanDoc w b =
     (w, respond 400 (Message (''Missing required fields: '' @ js_join '', '' (missingFields b))))"
  by (simp add: createMasterPlanDoc_def)

lemmas create_eval =
  createMasterPlanDoc_def missingFields_def requiredFields_def findOne_doc_id_def prepare_def
  prepared_file_type_def MasterPlanDoc_create_def build_def validation_errors_def violates_def
  columns_def column_fits_def persisted_def sql_def or_default_def js_or_def is_nullish_def
  is_string_type_def typeMap_lookup_def typeMap_def object_prototype_keys_def Let_def

lemmas examples =
  no_attrs_def doc1_request_def empty_world_def doc1_row_def doc1_world_def

lemma doc1_created:
  "createMasterPlanDoc empty_world doc1_request =
     (doc1_world, respond 201 (Created ''Master Plan Document created successfully''
        (doc1_row\<lparr>file_type := JUndefined\<rparr>)))"
  by (simp add: create_eval examples)

lemma required_cases:
  assumes "(k, v) \<in> set (requiredFields b)"
  obtains "k = ''doc_id''" "v = doc_id b"
  | "k = ''doc_type''" "v = doc_type b"
  | "k = ''doc_title''" "v = doc_title b"
  | "k = ''revision_no''" "v = revision_no b"
  | "k = ''year''" "v = year b"
  | "k = ''owner''" "v = owner b"
  | "k = ''status''" "v = status b"
  using assms unfolding requiredFields_def by fastforce

lemma missingFields_without:
  assumes "(k, v) \<in> set (requiredFields b)" and "\<not> truthy v"
  shows "missingFields (without k b) = missingFields b"
  using assms(1)
proof (cases rule: required_cases)
  case 1 with assms(2) show ?thesis
    by (simp add: without_def missingFields_def requiredFields_def)
next
  case 2 with assms(2) show ?thesis
    by (simp add: without_def missingFields_def requiredFields_def)
next
  case 3 with assms(2) show ?thesis
    by (simp add: without_def missingFields_def requiredFields_def)
next
  case 4 with assms(2) show ?thesis
    by (simp add: without_def missingFields_def requiredFields_def)
next
  case 5 with assms(2) show ?thesis
    by (simp add: without_def missingFields_def requiredFields_def)
next
  case 6 with assms(2) show ?thesis
    by (simp add: without_def missingFields_def requiredFields_def)
next
  case 7 with assms(2) show ?thesis
    by (simp add: without_def missingFields_def requiredFields_def)
qed

lemma findOne_doc_id_Some:
  assumes "r \<in> set tbl" and "doc_id r = d"
  shows "findOne_doc_id tbl d \<noteq> None"
  using assms by (auto simp: findOne_doc_id_def find_None_iff)

lemma created_row:
  assumes "createMasterPlanDoc w b = (w', respond 201 (Created m r))"
  obtains d where "missingFields b = []"
    and "findOne_doc_id (table w) (doc_id b) = None"
    and "prepare (clock w) b = Inr d"
    and "r = build (auto_increment w) (clock w) d"
    and "w' = w\<lparr>table := table w @ [persisted r], auto_increment := Suc (auto_increment w)\<rparr>"
    and "validation_errors r = []"
    and "list_all (column_fits r) columns"
    and "m = ''Master Plan Document created successfully''"
proof -
  have "http_status (respond 201 (Created m r)) = 201" by simp
  from created_cases [OF assms this] obtain d inst where
    a: "missingFields b = []" "findOne_doc_id (table w) (doc_id b) = None"
       "prepare (clock w) b = Inr d" "MasterPlanDoc_create w d = Inr (w', inst)"
       "respond 201 (Created m r) =
          respond 201 (Created ''Master Plan Document created successfully'' inst)"
    by blast
  then have "inst = r" "m = ''Master Plan Document created successfully''" by simp_all
  with a MasterPlanDoc_create_Inr [OF a(4)] that show ?thesis by blast
qed

lemma prepare_Inr:
  assumes "prepare now b = Inr d"
  shows "is_uploaded d = JBool (truthy (is_uploaded b))"
    and "storage_path d = js_or (storage_path b) JNull"
    and "uploaded_file d = js_or (uploaded_file b) JNull"
    and "prepared_file_type (file_type b) = Inr (file_type d)"
  using assms by (auto simp: prepare_def split: sum.splits)

lemma build_fields [simp]:
  "is_uploaded (build k n d) = or_default (is_uploaded d) (JBool False)"
  "storage_path (build k n d) = storage_path d"
  "uploaded_file (build k n d) = uploaded_file d"
  "file_type (build k n d) = file_type d"
  by (simp_all add: build_def)

lemma persisted_fields [simp]:
  "is_uploaded (persisted r) = sql (is_uploaded r)"
  "storage_path (persisted r) = sql (storage_path r)"
  "uploaded_file (persisted r) = sql (uploaded_file r)"
  "file_type (persisted r) = sql (file_type r)"
  by (simp_all add: persisted_def)

lemma js_or_JNull_not_null: "(js_or v JNull \<noteq> JNull) = truthy v"
  by (cases v) (simp_all add: js_or_def)

lemma sql_js_or [simp]: "sql (js_or v JNull) = js_or v JNull"
  by (cases v) (simp_all add: js_or_def sql_def)

lemma flagged_created:
  "createMasterPlanDoc empty_world flagged_request =
     (empty_world\<lparr>table := [flagged_row], auto_increment := 2\<rparr>,
      respond 201 (Created ''Master Plan Document created successfully''
        (flagged_row\<lparr>file_type := JUndefined\<rparr>)))"
  by (simp add: create_eval examples flagged_request_def flagged_row_def)







lemma truthy_string_fits:
  assumes "truthy v" and "fits (STRING n) v"
  obtains s where "v = JStr s" "s \<noteq> []" "length s \<le> n"
  using assms by (cases v) auto

lemma integer_fits:
  assumes "fits INTEGER v" and "\<not> is_nullish v"
  obtains i where "v = JNum i" "- (2 ^ 31) \<le> i" "i < 2 ^ 31"
  using assms by (cases v) (auto simp: is_nullish_def)

lemma parseInt_not_nullish [simp]: "\<not> is_nullish (parseInt v)"
  by (cases v) (auto simp: is_nullish_def parseInt_string_def Let_def split: prod.splits option.splits)

lemma no_missing_truthy:
  assumes "missingFields b = []"
  shows "truthy (doc_id b)" "truthy (doc_type b)" "truthy (doc_title b)"
    "truthy (revision_no b)" "truthy (year b)" "truthy (owner b)" "truthy (status b)"
proof -
  have "filter (\<lambda>(key, value). \<not> truthy value) (requiredFields b) = []"
    using assms by (simp add: missingFields_def)
  then have "\<forall>x \<in> set (requiredFields b). \<not> (case x of (key, value) \<Rightarrow> \<not> truthy value)"
    by (simp only: filter_empty_conv)
  then have *: "\<And>k v. (k, v) \<in> set (requiredFields b) \<Longrightarrow> truthy v" by auto
  show "truthy (doc_id b)" by (rule * [of "''doc_id''"]) (simp add: requiredFields_def)
  show "truthy (doc_type b)" by (rule * [of "''doc_type''"]) (simp add: requiredFields_def)
  show "truthy (doc_title b)" by (rule * [of "''doc_title''"]) (simp add: requiredFields_def)
  show "truthy (revision_no b)" by (rule * [of "''revision_no''"]) (simp add: requiredFields_def)
  show "truthy (year b)" by (rule * [of "''year''"]) (simp add: requiredFields_def)
  show "truthy (owner b)" by (rule * [of "''owner''"]) (simp add: requiredFields_def)
  show "truthy (status b)" by (rule * [of "''status''"]) (simp add: requiredFields_def)
qed

lemma prepare_required_only:
  assumes "only_required b"
  shows "prepare now b = Inr
     \<lparr>doc_id = doc_id b, doc_type = doc_type b, doc_title = doc_title b,
      revision_no = revision_no b, year = parseInt (year b), quarter = JNull,
      owner = owner b, status = status b, doc_status = JStr ''Open'',
      is_uploaded = JBool False, uploaded_file = JNull, file_type = JUndefined,
      file_size = JNull, storage_path = JNull, download_url = JNull, uploaded_at = JNull,
      created_at = JDate now, updated_at = JDate now\<rparr>"
  using assms
  by (simp add: only_required_def prepare_def prepared_file_type_def js_or_def or_default_def)

lemma build_required_only:
  assumes "only_required b" and "prepare (clock w) b = Inr d"
  shows "build (auto_increment w) (clock w) d = created_from w b"
  using assms(2) unfolding prepare_required_only [OF assms(1)]
  by (auto simp: build_def created_from_def or_default_def)

lemma created_from_valid:
  assumes "missingFields b = []" and "required_fit b"
  shows "validation_errors (created_from w b) = []"
    and "list_all (column_fits (created_from w b)) columns"
proof -
  note t = no_missing_truthy [OF assms(1)]
  from assms(2) have f: "fits (STRING 50) (doc_id b)" "fits (STRING 100) (doc_type b)"
    "fits (STRING 255) (doc_title b)" "fits (STRING 20) (revision_no b)"
    "fits INTEGER (parseInt (year b))" "fits (STRING 150) (owner b)"
    "fits (STRING 50) (status b)"
    by (simp_all add: required_fit_def)
  obtain s1 where s1: "doc_id b = JStr s1" "length s1 \<le> 50"
    using truthy_string_fits [OF t(1) f(1)] by blast
  obtain s2 where s2: "doc_type b = JStr s2" "length s2 \<le> 100"
    using truthy_string_fits [OF t(2) f(2)] by blast
  obtain s3 where s3: "doc_title b = JStr s3" "length s3 \<le> 255"
    using truthy_string_fits [OF t(3) f(3)] by blast
  obtain s4 where s4: "revision_no b = JStr s4" "length s4 \<le> 20"
    using truthy_string_fits [OF t(4) f(4)] by blast
  obtain i where i: "parseInt (year b) = JNum i" "- (2 ^ 31) \<le> i" "i < 2 ^ 31"
    using integer_fits [OF f(5)] by auto
  obtain s6 where s6: "owner b = JStr s6" "length s6 \<le> 150"
    using truthy_string_fits [OF t(6) f(6)] by blast
  obtain s7 where s7: "status b = JStr s7" "length s7 \<le> 50"
    using truthy_string_fits [OF t(7) f(7)] by blast
  show "validation_errors (created_from w b) = []"
    using s1 s2 s3 s4 i s6 s7
    by (simp add: validation_errors_def columns_def violates_def created_from_def
        is_nullish_def is_string_type_def)
  show "list_all (column_fits (created_from w b)) columns"
    using s1 s2 s3 s4 i s6 s7
    by (simp add: columns_def column_fits_def created_from_def)
qed

lemma findOne_doc_id_None:
  "(findOne_doc_id tbl d = None) = (d \<notin> doc_id ` set tbl)"
  by (auto simp: findOne_doc_id_def find_None_iff)

lemma persisted_created_from:
  "persisted (created_from w b) = (created_from w b)\<lparr>file_type := JNull\<rparr>"
  by (simp add: persisted_def created_from_def sql_def)

lemma required_only_created:
  assumes "missingFields b = []" and "only_required b" and "required_fit b"
    and "doc_id b \<notin> doc_id ` set (table w)"
  shows "createMasterPlanDoc w b =
     (w\<lparr>table := table w @ [(created_from w b)\<lparr>file_type := JNull\<rparr>],
         auto_increment := Suc (auto_increment w)\<rparr>,
      respond 201 (Created ''Master Plan Document created successfully'' (created_from w b)))"
proof -
  obtain d where d: "prepare (clock w) b = Inr d"
    using prepare_required_only [OF assms(2)] by blast
  have bd: "build (auto_increment w) (clock w) d = created_from w b"
    using assms(2) d by (rule build_required_only)
  have none: "findOne_doc_id (table w) (doc_id b) = None"
    using assms(4) by (simp add: findOne_doc_id_None)
  have "doc_id (created_from w b) = doc_id b" by (simp add: created_from_def)
  then have "MasterPlanDoc_create w d =
      Inr (w\<lparr>table := table w @ [(created_from w b)\<lparr>file_type := JNull\<rparr>],
             auto_increment := Suc (auto_increment w)\<rparr>, created_from w b)"
    using created_from_valid [OF assms(1,3), of w] none
    by (simp add: MasterPlanDoc_create_def bd persisted_created_from Let_def)
  with assms(1) none d show ?thesis
    by (simp add: createMasterPlanDoc_def)
qed

lemma mkdirSync_frame:
  assumes "mkdirSync w p = Inr w'"
  shows "table w' = table w" "auto_increment w' = auto_increment w" "dirname w' = dirname w"
    "clock w' = clock w" "writable w' = writable w" "files w' = files w"
  using assms by (auto simp: mkdirSync_def split: if_splits)

lemma ensureUploadsDir_frame:
  assumes "ensureUploadsDir w = Inr w'"
  shows "table w' = table w" "auto_increment w' = auto_increment w" "dirname w' = dirname w"
    "clock w' = clock w" "writable w' = writable w" "files w' = files w"
  using assms mkdirSync_frame [of w "uploadsDir_path w" w']
  by (auto simp: ensureUploadsDir_def split: if_splits)

lemma mv_frame:
  assumes "mv w f p = Inr w'"
  shows "table w' = table w" "auto_increment w' = auto_increment w" "dirname w' = dirname w"
    "files w' (fs_key p) = Some (up_data f)"
  using assms by (auto simp: mv_def split: if_splits)

lemma uploadsDir_path_cong: "dirname w' = dirname w \<Longrightarrow> uploadsDir_path w' = uploadsDir_path w"
  by (simp add: uploadsDir_path_def)

text \<open>The upload handler, step by step, once the four checks have passed.\<close>

lemma uploadFile_cases:
  obtains
    (rejected) msg where "uploadFile w req = (w, respond 400 (UploadFailed msg))"
  | (crashed) w1 where "uploadFile w req = (w1, upload_crashed)"
      "table w1 = table w" "auto_increment w1 = auto_increment w"
  | (stored) f d w1 w2 w3 where "document req = Some f" "doc_id (body req) = JStr d"
      "ensureUploadsDir w = Inr w1"
      "(if \<not> existsSync w1 (path_join [uploadsDir_path w1, d])
        then mkdirSync w1 (path_join [uploadsDir_path w1, d]) else Inr w1) = Inr w2"
      "mv w2 f (path_join [path_join [uploadsDir_path w1, d],
                 uniqueFileName_of d (up_name f) (clock w)]) = Inr w3"
      "uploadFile w req =
         (w3, respond 200
           (UploadDone ''File uploaded successfully and stored permanently''
             \<lparr>fileName = uniqueFileName_of d (up_name f) (clock w),
              originalName = up_name f,
              fileSize = up_size f,
              fileType = up_mimetype f,
              storagePath = ''/uploads/master-plans/'' @ d @ ''/''
                 @ uniqueFileName_of d (up_name f) (clock w),
              downloadUrl = ''/api/masterplandocs/download/'' @ d @ ''/''
                 @ uniqueFileName_of d (up_name f) (clock w)\<rparr>))"
proof (cases "document req")
  case None
  then show ?thesis by (intro rejected) (simp add: uploadFile_def)
next
  case (Some f)
  show ?thesis
  proof (cases "\<not> truthy (doc_id (body req)) \<or> \<not> truthy (doc_type (body req))
             \<or> \<not> truthy (revision_no (body req)) \<or> up_size f > 10 * 1024 * 1024
             \<or> up_mimetype f \<notin> set allowedTypes")
    case True
    with Some show ?thesis
      by (intro rejected [of "if \<not> truthy (doc_id (body req)) \<or> \<not> truthy (doc_type (body req))
             \<or> \<not> truthy (revision_no (body req))
           then ''All metadata (doc_id, doc_type, revision_no) is required for file upload''
           else if up_size f > 10 * 1024 * 1024 then ''File size must be less than 10MB''
           else ''File type not supported''"])
        (auto simp: uploadFile_def)
  next
    case False
    then have pass: "truthy (doc_id (body req))" "truthy (doc_type (body req))"
      "truthy (revision_no (body req))" "\<not> up_size f > 10 * 1024 * 1024"
      "up_mimetype f \<in> set allowedTypes" by auto
    show ?thesis
    proof (cases "ensureUploadsDir w")
      case (Inl e)
      with Some pass show ?thesis
        by (intro crashed [of w]) (simp_all add: uploadFile_def)
    next
      case (Inr w1)
      note w1 = ensureUploadsDir_frame [OF Inr]
      show ?thesis
      proof (cases "\<exists>d. doc_id (body req) = JStr d")
        case False
        with Some pass Inr w1 show ?thesis
          by (intro crashed [of w1]) (auto simp: uploadFile_def split: jsval.splits)
      next
        case True
        then obtain d where d: "doc_id (body req) = JStr d" by blast
        let ?folder = "path_join [uploadsDir_path w1, d]"
        show ?thesis
        proof (cases "if \<not> existsSync w1 ?folder then mkdirSync w1 ?folder else Inr w1")
          case (Inl e)
          with Some pass Inr w1 d show ?thesis
            by (intro crashed [of w1]) (simp_all add: uploadFile_def Let_def)
        next
          case w2: (Inr w2)
          have f2: "table w2 = table w1" "auto_increment w2 = auto_increment w1"
            using w2 mkdirSync_frame [of w1 ?folder w2] by (auto split: if_splits)
          let ?path = "path_join [?folder, uniqueFileName_of d (up_name f) (clock w)]"
          show ?thesis
          proof (cases "mv w2 f ?path")
            case (Inl e)
            with Some pass Inr w1 d w2 f2 show ?thesis
              by (intro crashed [of w2]) (simp_all add: uploadFile_def Let_def)
          next
            case w3: (Inr w3)
            with Some pass Inr d w2 show ?thesis
              by (intro stored [of f d w1 w2 w3]) (simp_all add: uploadFile_def Let_def)
          qed
        qed
      qed
    qed
  qed
qed

lemma stamp: "string_of_nat 1700000000000 = ''1700000000000''"
  by (simp add: string_of_nat.simps digit_char_def)

lemma name_doc1: "uniqueFileName_of ''DOC-1'' ''my report.pdf'' 1700000000000 =
   ''DOC-1_my report_1700000000000.pdf''"
  by (simp add: uniqueFileName_of_def path_extname_def path_basename_def last_component_def
      ends_with_def Let_def stamp)

lemma upload_doc1_done:
  "snd (uploadFile empty_world upload_doc1) =
     respond 200 (UploadDone ''File uploaded successfully and stored permanently''
       \<lparr>fileName = ''DOC-1_my report_1700000000000.pdf'',
        originalName = ''my report.pdf'',
        fileSize = 1024,
        fileType = ''application/pdf'',
        storagePath = ''/uploads/master-plans/DOC-1/DOC-1_my report_1700000000000.pdf'',
        downloadUrl =
          ''/api/masterplandocs/download/DOC-1/DOC-1_my report_1700000000000.pdf''\<rparr>)"
  by (simp add: uploadFile_def ensureUploadsDir_def uploadsDir_path_def existsSync_def mkdirSync_def mv_def
  fs_key_def segments_def normalize_step_def path_join_def path_normalize_def
  allowedTypes_def Let_def upload_doc1_def pdf_file_def empty_world_def no_attrs_def name_doc1)

lemma last_component_no_slash: "CHR ''/'' \<notin> set (last_component p)"
proof -
  have "\<forall>x \<in> set (takeWhile (\<lambda>c. c \<noteq> CHR ''/'') xs). x \<noteq> CHR ''/''" for xs
    by (auto dest: set_takeWhileD)
  then show ?thesis unfolding last_component_def by auto
qed

lemma last_component_length: "length (last_component p) \<le> length p"
proof -
  have "length (takeWhile P (dropWhile Q xs)) \<le> length xs" for P Q and xs :: string
    by (meson le_trans length_takeWhile_le length_dropWhile_le)
  from this [of _ _ "rev p"] show ?thesis by (simp add: last_component_def)
qed

lemma last_component_plain:
  assumes "CHR ''/'' \<notin> set p"
  shows "last_component p = p"
proof -
  have d: "dropWhile (\<lambda>c. c = CHR ''/'') (rev p) = rev p"
    using assms by (cases "rev p") (auto simp: rev_swap [symmetric])
  have t: "takeWhile (\<lambda>c. c \<noteq> CHR ''/'') (rev p) = rev p"
    using assms by (auto simp: takeWhile_eq_all_conv)
  show ?thesis unfolding last_component_def d t by simp
qed

lemma split_last_dot:
  assumes "CHR ''.'' \<in> set c"
  obtains stem where "c = stem @ CHR ''.'' # rev (takeWhile (\<lambda>x. x \<noteq> CHR ''.'') (rev c))"
proof -
  let ?P = "\<lambda>x. x \<noteq> CHR ''.''"
  have ne: "dropWhile ?P (rev c) \<noteq> []"
    using assms by (auto simp: dropWhile_eq_Nil_conv)
  then have "\<not> ?P (hd (dropWhile ?P (rev c)))" by (rule hd_dropWhile)
  with ne obtain rest where rest: "dropWhile ?P (rev c) = CHR ''.'' # rest"
    by (cases "dropWhile ?P (rev c)") auto
  have "rev c = takeWhile ?P (rev c) @ dropWhile ?P (rev c)" by simp
  then have "c = rev (dropWhile ?P (rev c)) @ rev (takeWhile ?P (rev c))"
    by (metis rev_append rev_rev_ident)
  then have "c = rev rest @ CHR ''.'' # rev (takeWhile ?P (rev c))"
    by (simp add: rest)
  then show ?thesis by (rule that)
qed

lemma extname_cases:
  obtains (none) "path_extname p = []"
  | (dotted) stem e where "stem \<noteq> []" "last_component p = stem @ CHR ''.'' # e"
      "path_extname p = CHR ''.'' # e"
proof (cases "path_extname p = []")
  case True
  then show ?thesis by (rule none)
next
  case False
  let ?c = "last_component p"
  let ?e = "rev (takeWhile (\<lambda>x. x \<noteq> CHR ''.'') (rev ?c))"
  from False have dot: "CHR ''.'' \<in> set ?c" and len: "length ?c - length ?e - 1 \<noteq> 0"
    and pe: "path_extname p = CHR ''.'' # ?e"
    by (auto simp: path_extname_def Let_def split: if_splits)
  from dot obtain stem where stem: "?c = stem @ CHR ''.'' # ?e" by (rule split_last_dot)
  then have "length ?c = length stem + 1 + length ?e"
    by (metis length_append length_Cons Suc_eq_plus1 add.assoc add.commute)
  with len have "stem \<noteq> []" by auto
  then show ?thesis using stem pe by (rule dotted)
qed

lemma basename_extname:
  "path_basename p (path_extname p) @ path_extname p = last_component p
   \<and> CHR ''/'' \<notin> set (path_basename p (path_extname p))
   \<and> path_basename p (path_extname p) \<noteq> [] = (last_component p \<noteq> [])"
proof (cases p rule: extname_cases)
  case none
  then show ?thesis
    by (simp add: path_basename_def last_component_no_slash)
next
  case (dotted stem e)
  let ?c = "last_component p"
  let ?s = "CHR ''.'' # e"
  have l: "length ?s \<le> length p"
    using last_component_length [of p] dotted(2) by simp
  have np: "?s \<noteq> p"
  proof
    assume eq: "?s = p"
    have "CHR ''/'' \<notin> set ?s"
      using last_component_no_slash [of p] dotted(2) by auto
    then have "last_component p = p" using eq by (simp add: last_component_plain)
    with dotted(1,2) eq show False by simp
  qed
  have nc: "?c \<noteq> ?s" using dotted(1,2) by simp
  have ew: "ends_with ?c ?s" using dotted(2) by (simp add: ends_with_def)
  have "path_basename p ?s = take (length ?c - length ?s) ?c"
    using l np nc ew by (simp add: path_basename_def Let_def)
  then have b: "path_basename p ?s = stem" using dotted(2) by simp
  show ?thesis
    using b dotted last_component_no_slash [of p] by auto
qed

text \<open>
  Splitting and normalising paths: the file system resolves a normalised path to the
  segments of the path itself, and joining a plain segment appends it.
\<close>

lemma split_on_ne [simp]: "split_on c xs \<noteq> []"
  by (induction xs) (auto split: list.splits)

lemma split_on_append: "split_on c (xs @ c # ys) = split_on c xs @ split_on c ys"
proof (induction xs)
  case Nil
  show ?case by simp
next
  case (Cons x xs)
  obtain h t where ht: "split_on c xs = h # t"
    by (cases "split_on c xs") auto
  with Cons show ?case by simp
qed

lemma split_on_plain: "c \<notin> set s \<Longrightarrow> split_on c s = [s]"
  by (induction s) auto

lemma split_on_chunks: "ch \<in> set (split_on c s) \<Longrightarrow> c \<notin> set ch"
proof (induction s arbitrary: ch)
  case Nil
  then show ?case by simp
next
  case (Cons x xs)
  obtain h t where ht: "split_on c xs = h # t"
    by (cases "split_on c xs") auto
  have h: "c \<notin> set h" and t: "\<forall>y \<in> set t. c \<notin> set y"
    using Cons.IH ht by auto
  show ?case
    using Cons.prems ht h t by (auto split: if_splits)
qed

lemma split_on_join:
  assumes "\<forall>s \<in> set xs. c \<notin> set s" and "xs \<noteq> []"
  shows "split_on c (js_join [c] xs) = xs"
  using assms
proof (induction "[c]" xs rule: js_join.induct)
  case 1
  then show ?case by simp
next
  case (2 x)
  then show ?case by (simp add: split_on_plain)
next
  case (3 x y ys)
  then have "split_on c (js_join [c] (y # ys)) = y # ys" by simp
  moreover have "split_on c x = [x]" using 3 by (simp add: split_on_plain)
  ultimately show ?case
    using split_on_append [of c x "js_join [c] (y # ys)"] by simp
qed

lemma js_join_ne:
  assumes "xs \<noteq> []" and "\<forall>s \<in> set xs. s \<noteq> []"
  shows "js_join sep xs \<noteq> []"
  using assms by (induction sep xs rule: js_join.induct) auto

lemma step_empty [simp]: "normalize_step a acc [] = acc"
  by (simp add: normalize_step_def)

lemma step_plain: "plain_segment s \<Longrightarrow> normalize_step a acc s = acc @ [s]"
  by (simp add: normalize_step_def plain_segment_def)

lemma foldl_step_plain:
  "list_all plain_segment ys \<Longrightarrow> foldl (normalize_step a) acc ys = acc @ ys"
  by (induction ys arbitrary: acc) (simp_all add: step_plain)

lemma list_all_butlast: "list_all P xs \<Longrightarrow> list_all P (butlast xs)"
  by (induction xs) auto

lemma step_False_plain:
  assumes "list_all plain_segment acc" and "CHR ''/'' \<notin> set s"
  shows "list_all plain_segment (normalize_step False acc s)"
  using assms by (auto simp: normalize_step_def plain_segment_def list_all_butlast)

lemma foldl_step_False_plain:
  assumes "list_all plain_segment acc" and "\<forall>s \<in> set xs. CHR ''/'' \<notin> set s"
  shows "list_all plain_segment (foldl (normalize_step False) acc xs)"
  using assms by (induction xs arbitrary: acc) (simp_all add: step_False_plain)

lemma fs_key_plain: "list_all plain_segment (fs_key p)"
  unfolding fs_key_def segments_def
  by (rule foldl_step_False_plain) (auto dest: split_on_chunks)

lemma last_plain: "list_all plain_segment acc \<Longrightarrow> acc \<noteq> [] \<Longrightarrow> last acc \<noteq> ''..''"
  by (induction acc) (auto simp: plain_segment_def)

text \<open>Above the root: what \<open>normalize\<close> keeps of a relative path that the file system drops.\<close>

lemma step_True_False:
  assumes "list_all plain_segment acc" and "CHR ''/'' \<notin> set s"
  shows "\<exists>k'. normalize_step True (replicate k ''..'' @ acc) s =
               replicate k' ''..'' @ normalize_step False acc s"
proof (cases "s = ''..''")
  case False
  then show ?thesis
    by (intro exI [of _ k]) (simp add: normalize_step_def)
next
  case True
  show ?thesis
  proof (cases "acc = []")
    case False
    with True assms last_plain [OF assms(1)] show ?thesis
      by (intro exI [of _ k]) (simp add: normalize_step_def butlast_append)
  next
    case e: True
    have "replicate k ''..'' @ [''..''] = replicate (Suc k) ''..''"
      by (simp add: replicate_append_same)
    with True e show ?thesis
      by (intro exI [of _ "Suc k"]) (cases k; simp add: normalize_step_def)
  qed
qed

lemma foldl_step_True_False:
  assumes "list_all plain_segment acc" and "\<forall>s \<in> set xs. CHR ''/'' \<notin> set s"
  shows "\<exists>k'. foldl (normalize_step True) (replicate k ''..'' @ acc) xs =
               replicate k' ''..'' @ foldl (normalize_step False) acc xs"
  using assms
proof (induction xs arbitrary: acc k)
  case Nil
  then show ?case by auto
next
  case (Cons x xs)
  then have x: "CHR ''/'' \<notin> set x" by simp
  from step_True_False [OF Cons.prems(1) x, of k] obtain k1 where
    k1: "normalize_step True (replicate k ''..'' @ acc) x =
           replicate k1 ''..'' @ normalize_step False acc x" by blast
  have "list_all plain_segment (normalize_step False acc x)"
    using Cons.prems(1) x by (rule step_False_plain)
  from Cons.IH [OF this, of k1] Cons.prems(2) k1 show ?case by simp
qed

lemma segments_any:
  "\<exists>k. segments a p = replicate k ''..'' @ fs_key p"
proof (cases a)
  case False
  then show ?thesis by (intro exI [of _ 0]) (simp add: fs_key_def)
next
  case True
  have "\<exists>k'. foldl (normalize_step True) (replicate 0 ''..'' @ []) (split_on CHR ''/'' p) =
          replicate k' ''..'' @ foldl (normalize_step False) [] (split_on CHR ''/'' p)"
    by (rule foldl_step_True_False) (auto dest: split_on_chunks)
  with True show ?thesis by (simp add: segments_def fs_key_def)
qed

lemma foldl_step_dots:
  "foldl (normalize_step False) [] (replicate k ''..'' @ ys) = foldl (normalize_step False) [] ys"
  by (induction k) (simp_all add: normalize_step_def)

lemma fs_key_wrapped:
  assumes "split_on CHR ''/'' q = segs"
    and "pre = [] \<or> pre = ''/''" and "t = [] \<or> t = ''/''"
  shows "fs_key (pre @ q @ t) = foldl (normalize_step False) [] segs"
proof -
  have tail: "split_on CHR ''/'' (q @ t) = segs @ (if t = [] then [] else [[]])"
    using assms(1,3) split_on_append [of "CHR ''/''" q "[]"] by auto
  have "split_on CHR ''/'' (pre @ q @ t) =
          (if pre = [] then [] else [[]]) @ segs @ (if t = [] then [] else [[]])"
    using assms(2) tail by auto
  then show ?thesis
    by (simp add: fs_key_def segments_def)
qed

lemma dots_and_plain:
  assumes "s \<in> set (replicate k ''..'' @ F)" and "list_all plain_segment F"
  shows "CHR ''/'' \<notin> set s \<and> s \<noteq> []"
proof -
  from assms(1) consider "s = ''..''" | "s \<in> set F"
    by (auto simp: in_set_replicate)
  then show ?thesis
  proof cases
    case 1
    then show ?thesis by simp
  next
    case 2
    with assms(2) have "plain_segment s" by (simp add: list_all_iff)
    then show ?thesis by (simp add: plain_segment_def)
  qed
qed

lemma fs_key_normalize:
  assumes "p \<noteq> []"
  shows "fs_key (path_normalize p) = fs_key p"
proof -
  let ?a = "\<not> (hd p = CHR ''/'')"
  obtain k where segs: "segments ?a p = replicate k ''..'' @ fs_key p"
    using segments_any by blast
  let ?segs = "segments ?a p"
  let ?q = "js_join ''/'' ?segs"
  have plain: "list_all plain_segment (fs_key p)" by (rule fs_key_plain)
  have fold: "foldl (normalize_step False) [] ?segs = fs_key p"
    unfolding segs foldl_step_dots using plain by (simp add: foldl_step_plain)
  show ?thesis
  proof (cases "?segs = []")
    case True
    then have "fs_key p = []" using segs by simp
    moreover have "fs_key ''/'' = []" "fs_key ''./'' = []" "fs_key ''.'' = []"
      by (simp_all add: fs_key_def segments_def normalize_step_def)
    ultimately show ?thesis
      using True assms by (simp add: path_normalize_def Let_def)
  next
    case False
    have noslash: "\<forall>s \<in> set ?segs. CHR ''/'' \<notin> set s"
      unfolding segs using dots_and_plain [OF _ plain] by blast
    have nonempty: "\<forall>s \<in> set ?segs. s \<noteq> []"
      unfolding segs using dots_and_plain [OF _ plain] by blast
    have q: "?q \<noteq> []" using False nonempty by (rule js_join_ne)
    have sp: "split_on CHR ''/'' ?q = ?segs"
      using noslash False by (rule split_on_join)
    have "path_normalize p =
            (if hd p = CHR ''/'' then ''/'' else []) @ ?q
              @ (if last p = CHR ''/'' then ''/'' else [])"
      using assms q by (simp add: path_normalize_def Let_def)
    then have "fs_key (path_normalize p) = foldl (normalize_step False) [] ?segs"
      using fs_key_wrapped [OF sp] by simp
    with fold show ?thesis by simp
  qed
qed

lemma path_normalize_ne [simp]: "path_normalize p \<noteq> []"
  by (auto simp: path_normalize_def Let_def)

lemma path_join_ne [simp]: "path_join args \<noteq> []"
  by (simp add: path_join_def Let_def)

lemma fs_key_join:
  assumes "A \<noteq> []" and "n \<noteq> []"
  shows "fs_key (path_join [A, n]) =
           foldl (normalize_step False) (fs_key A) (split_on CHR ''/'' n)"
proof -
  have "path_join [A, n] = path_normalize (A @ CHR ''/'' # n)"
    using assms by (simp add: path_join_def Let_def)
  then have "fs_key (path_join [A, n]) = fs_key (A @ CHR ''/'' # n)"
    by (simp add: fs_key_normalize)
  then show ?thesis
    by (simp add: fs_key_def segments_def split_on_append)
qed

lemma fs_key_join_plain:
  assumes "A \<noteq> []" and "plain_segment n"
  shows "fs_key (path_join [A, n]) = fs_key A @ [n]"
proof -
  from assms(2) have "n \<noteq> []" "CHR ''/'' \<notin> set n" by (simp_all add: plain_segment_def)
  with fs_key_join [OF assms(1), of n] assms(2) show ?thesis
    by (simp add: split_on_plain step_plain)
qed

lemma step_dotdot_plain:
  "list_all plain_segment acc \<Longrightarrow> normalize_step False acc ''..'' = butlast acc"
  using last_plain [of acc] by (cases "acc = []") (simp_all add: normalize_step_def)

lemma uploads_tail:
  "foldl (normalize_step False) acc (split_on CHR ''/'' ''../../uploads/master-plans'') =
     normalize_step False (normalize_step False acc ''..'') ''..'' @ [''uploads'', ''master-plans'']"
  by (simp add: normalize_step_def)

lemma fs_key_uploadsDir:
  "fs_key (uploadsDir_path w) =
     butlast (butlast (fs_key (dirname w))) @ [''uploads'', ''master-plans'']"
proof -
  let ?u = "''../../uploads/master-plans''"
  have two: "normalize_step False (normalize_step False (fs_key (dirname w)) ''..'') ''..'' =
      butlast (butlast (fs_key (dirname w)))"
    using fs_key_plain [of "dirname w"] by (simp add: step_dotdot_plain list_all_butlast)
  show ?thesis
  proof (cases "dirname w = []")
    case True
    then have "uploadsDir_path w = path_normalize ?u"
      by (simp add: uploadsDir_path_def path_join_def Let_def)
    then have "fs_key (uploadsDir_path w) = fs_key ?u"
      by (simp add: fs_key_normalize)
    also have "\<dots> = foldl (normalize_step False) [] (split_on CHR ''/'' ?u)"
      by (simp only: fs_key_def segments_def)
    also have "\<dots> = [''uploads'', ''master-plans'']"
      unfolding uploads_tail by (simp add: normalize_step_def)
    finally show ?thesis using True by (simp add: fs_key_def segments_def)
  next
    case False
    have "fs_key (uploadsDir_path w) =
            foldl (normalize_step False) (fs_key (dirname w)) (split_on CHR ''/'' ?u)"
      unfolding uploadsDir_path_def using False by (intro fs_key_join) simp_all
    then show ?thesis unfolding uploads_tail two .
  qed
qed

lemma digit_no_slash: "k < 10 \<Longrightarrow> digit_char k \<noteq> CHR ''/''"
proof -
  assume "k < 10"
  then have "digit_char k \<in> set ''0123456789''"
    unfolding digit_char_def by (intro nth_mem) simp
  then show ?thesis by auto
qed

lemma string_of_nat_no_slash: "CHR ''/'' \<notin> set (string_of_nat n)"
proof (induction n rule: string_of_nat.induct)
  case (1 n)
  show ?case
  proof (cases "n < 10")
    case True
    then show ?thesis
      using digit_no_slash [of n] by (subst string_of_nat.simps) auto
  next
    case False
    with 1 digit_no_slash [of "n mod 10"] show ?thesis
      by (subst string_of_nat.simps) auto
  qed
qed

lemma extname_no_slash: "CHR ''/'' \<notin> set (path_extname p)"
proof (cases p rule: extname_cases)
  case none
  then show ?thesis by simp
next
  case (dotted stem e)
  with last_component_no_slash [of p] show ?thesis by auto
qed

lemma uniqueFileName_plain:
  assumes "CHR ''/'' \<notin> set d"
  shows "plain_segment (uniqueFileName_of d name t)"
proof -
  let ?n = "uniqueFileName_of d name t"
  have n: "?n = d @ ''_'' @ path_basename name (path_extname name) @ ''_''
                 @ string_of_nat t @ path_extname name"
    by (simp add: uniqueFileName_of_def Let_def)
  have u: "CHR ''_'' \<in> set ?n" unfolding n by simp
  have "CHR ''/'' \<notin> set ?n"
    unfolding n using assms basename_extname [of name] string_of_nat_no_slash [of t]
      extname_no_slash [of name] by simp
  moreover have "?n \<noteq> []" "?n \<noteq> ''.''" "?n \<noteq> ''..''" using u by auto
  ultimately show ?thesis by (simp add: plain_segment_def)
qed

lemma name_traversal: "uniqueFileName_of ''../x'' ''my report.pdf'' 1700000000000 =
   ''../x_my report_1700000000000.pdf''"
  by (simp add: uniqueFileName_of_def path_extname_def path_basename_def last_component_def
      ends_with_def Let_def stamp)

lemma key_numeral: "string_of_nat (Suc 0) = ''1''" "string_of_nat 1 = ''1''"
  by (simp_all add: string_of_nat.simps digit_char_def)

lemma server_check_exact:
  assumes "d \<noteq> []"
  shows "checkDocIdExists w d = respond 200 (Exists (\<exists>r \<in> set (table w). doc_id r = JStr d))"
  using assms by (auto simp: checkDocIdExists_def findOne_doc_id_def find_None_iff)

section \<open>Creating a document: the required fields\<close>

text \<open>
  Claim C5. A create request in which a required field is absent fails with status 400
  and the message \<^verbatim>\<open>Missing required fields: \<close> followed by the names of the missing
  fields, separated by \<^verbatim>\<open>, \<close>; the world (table and files) is unchanged. The absent field
  is named, and the fields named are, each once, exactly the required fields the
  controller counts as missing: those whose value is absent or otherwise falsy.
\<close>

theorem create_names_missing_fields:
  assumes "(k, JUndefined) \<in> set (requiredFields b)"
  shows "createMasterPlanDoc w b =
           (w, respond 400
                 (Message (''Missing required fields: '' @ js_join '', '' (missingFields b))))
         \<and> k \<in> set (missingFields b)
         \<and> set (missingFields b) = {f. \<exists>v. (f, v) \<in> set (requiredFields b) \<and> \<not> truthy v}
         \<and> distinct (missingFields b)"
proof -
  have k: "k \<in> set (missingFields b)"
    using assms unfolding missingFields_set by force
  then have "missingFields b \<noteq> []" by auto
  with k show ?thesis
    by (simp add: create_missing missingFields_distinct missingFields_set [symmetric])
qed

theorem create_names_missing_fields_witness:
  "(''doc_title'', JUndefined)
     \<in> set (requiredFields (doc1_request\<lparr>doc_title := JUndefined, year := JNum 0\<rparr>))
   \<and> createMasterPlanDoc doc1_world (doc1_request\<lparr>doc_title := JUndefined, year := JNum 0\<rparr>) =
       (doc1_world, respond 400 (Message ''Missing required fields: doc_title, year''))"
  using create_names_missing_fields
    [of "''doc_title''" "doc1_request\<lparr>doc_title := JUndefined, year := JNum 0\<rparr>" doc1_world]
  by (simp add: requiredFields_def missingFields_def examples)

text \<open>
  Claim C9. A required field that is present with a falsy value (the empty string, the
  number 0, and likewise \<open>null\<close> or \<open>false\<close>) is treated as missing: the request fails with
  status 400, the message names the field, the world is unchanged, and the outcome is
  the one of the same request with the field removed.
\<close>

theorem create_falsy_field_is_missing:
  assumes "(k, v) \<in> set (requiredFields b)" and "\<not> truthy v"
  shows "k \<in> set (missingFields b)
         \<and> createMasterPlanDoc w b =
             (w, respond 400
                   (Message (''Missing required fields: '' @ js_join '', '' (missingFields b))))
         \<and> createMasterPlanDoc w (without k b) = createMasterPlanDoc w b"
proof -
  have k: "k \<in> set (missingFields b)"
    using assms unfolding missingFields_set by blast
  then have ne: "missingFields b \<noteq> []" by auto
  then have "missingFields (without k b) \<noteq> []"
    using assms by (simp add: missingFields_without)
  then have "createMasterPlanDoc w (without k b) = createMasterPlanDoc w b"
    using ne assms by (simp add: create_missing missingFields_without)
  with k ne show ?thesis by (simp add: create_missing)
qed

theorem create_falsy_field_is_missing_witness:
  "(''year'', JNum 0) \<in> set (requiredFields (doc1_request\<lparr>year := JNum 0\<rparr>))
   \<and> \<not> truthy (JNum 0)
   \<and> createMasterPlanDoc empty_world (doc1_request\<lparr>year := JNum 0\<rparr>) =
       (empty_world, respond 400 (Message ''Missing required fields: year''))
   \<and> createMasterPlanDoc empty_world (doc1_request\<lparr>year := JUndefined\<rparr>) =
       (empty_world, respond 400 (Message ''Missing required fields: year''))"
  using create_falsy_field_is_missing [of "''year''" "JNum 0" "doc1_request\<lparr>year := JNum 0\<rparr>" empty_world]
  by (simp add: requiredFields_def missingFields_def without_def examples)

section \<open>Creating a document: an id that is already stored\<close>

text \<open>
  Claim C3, amended. A create request whose \<open>doc_id\<close> is the one of a stored row fails with
  status 400 and leaves the world unchanged (no row added, none altered). The required
  fields are checked first: the answer is the conflict \<^verbatim>\<open>Document ID already exists\<close> when
  no required field is missing, and the list of the missing fields otherwise.
\<close>

theorem create_duplicate_doc_id_rejected:
  assumes "r \<in> set (table w)" and "doc_id r = doc_id b"
  shows "fst (createMasterPlanDoc w b) = w
         \<and> http_status (snd (createMasterPlanDoc w b)) = 400
         \<and> payload (snd (createMasterPlanDoc w b)) =
             (if missingFields b = [] then Message ''Document ID already exists''
              else Message (''Missing required fields: '' @ js_join '', '' (missingFields b)))"
proof (cases "missingFields b = []")
  case True
  moreover obtain e where "findOne_doc_id (table w) (doc_id b) = Some e"
    using findOne_doc_id_Some [OF assms] by auto
  ultimately show ?thesis by (simp add: createMasterPlanDoc_def)
next
  case False
  then show ?thesis by (simp add: create_missing)
qed

theorem create_duplicate_doc_id_rejected_witness:
  "doc1_row \<in> set (table doc1_world) \<and> doc_id doc1_row = doc_id doc1_request
   \<and> createMasterPlanDoc doc1_world doc1_request =
       (doc1_world, respond 400 (Message ''Document ID already exists''))"
  using create_duplicate_doc_id_rejected [of doc1_row doc1_world doc1_request]
  by (simp add: missingFields_def requiredFields_def examples prod_eq_iff response.equality)

text \<open>
  Claim C3 as stated, at the stored \<open>DOC-1\<close> and a request that carries this \<open>doc_id\<close> and
  nothing else: the answer is the validation error of the missing fields, not the
  conflict.
\<close>

theorem create_duplicate_doc_id_missing_fields_first:
  "doc_id doc1_row = doc_id only_id_request \<and> doc1_row \<in> set (table doc1_world)
   \<and> createMasterPlanDoc doc1_world only_id_request =
       (doc1_world, respond 400 (Message
          ''Missing required fields: doc_type, doc_title, revision_no, year, owner, status''))"
  by (simp add: create_eval examples only_id_request_def)

section \<open>Creating a document: the record that is stored\<close>

text \<open>
  Claim C1, amended. When the create operation accepts a request (status 201), the row
  it appends has \<open>is_uploaded\<close> equal to the truthiness of the request's \<open>is_uploaded\<close>, and
  \<open>storage_path\<close> and \<open>uploaded_file\<close> equal to the request's values when these are truthy
  and null otherwise. The controller does not relate the three: the row satisfies the
  invariant exactly when the request, if its \<open>is_uploaded\<close> is truthy, also carries a
  truthy \<open>storage_path\<close> and a truthy \<open>uploaded_file\<close>.
\<close>

theorem created_record_upload_fields:
  assumes "createMasterPlanDoc w b = (w', respond 201 (Created m r))"
  shows "table w' = table w @ [persisted r]
         \<and> is_uploaded (persisted r) = JBool (truthy (is_uploaded b))
         \<and> storage_path (persisted r) = js_or (storage_path b) JNull
         \<and> uploaded_file (persisted r) = js_or (uploaded_file b) JNull
         \<and> upload_invariant (persisted r) =
             (\<not> truthy (is_uploaded b) \<or> (truthy (storage_path b) \<and> truthy (uploaded_file b)))"
proof -
  from assms obtain d where d: "prepare (clock w) b = Inr d"
    and r: "r = build (auto_increment w) (clock w) d"
    and w': "w' = w\<lparr>table := table w @ [persisted r], auto_increment := Suc (auto_increment w)\<rparr>"
    by (rule created_row)
  have u: "is_uploaded (persisted r) = JBool (truthy (is_uploaded b))"
    using prepare_Inr(1) [OF d] r by (simp add: or_default_def sql_def)
  have s: "storage_path (persisted r) = js_or (storage_path b) JNull"
    using prepare_Inr(2) [OF d] r by simp
  have f: "uploaded_file (persisted r) = js_or (uploaded_file b) JNull"
    using prepare_Inr(3) [OF d] r by simp
  have "upload_invariant (persisted r) =
          (\<not> truthy (is_uploaded b) \<or> (truthy (storage_path b) \<and> truthy (uploaded_file b)))"
    unfolding upload_invariant_def u s f by (simp add: js_or_JNull_not_null)
  with u s f w' show ?thesis by simp
qed

theorem created_record_upload_fields_witness:
  "createMasterPlanDoc empty_world doc1_request =
     (doc1_world, respond 201 (Created ''Master Plan Document created successfully''
        (doc1_row\<lparr>file_type := JUndefined\<rparr>)))
   \<and> table doc1_world = table empty_world @ [persisted (doc1_row\<lparr>file_type := JUndefined\<rparr>)]
   \<and> upload_invariant (persisted (doc1_row\<lparr>file_type := JUndefined\<rparr>))"
  using created_record_upload_fields [OF doc1_created] doc1_created
  by (simp add: examples persisted_def sql_def js_or_def upload_invariant_def)

text \<open>
  Claim C1 as stated, at the sample request with \<open>is_uploaded: true\<close> and no file fields, in
  the empty world: the request is accepted and the stored row has \<open>is_uploaded\<close> true with
  null \<open>storage_path\<close> and \<open>uploaded_file\<close>.
\<close>

theorem created_record_breaks_upload_invariant:
  "http_status (snd (createMasterPlanDoc empty_world flagged_request)) = 201
   \<and> table (fst (createMasterPlanDoc empty_world flagged_request)) = [flagged_row]
   \<and> is_uploaded flagged_row = JBool True
   \<and> storage_path flagged_row = JNull
   \<and> uploaded_file flagged_row = JNull
   \<and> \<not> upload_invariant flagged_row"
  by (simp add: flagged_created) (simp add: flagged_row_def upload_invariant_def examples)



section \<open>Creating a document: the defaults\<close>

text \<open>
  Claim C7, amended. A create request that supplies the required metadata (each value
  truthy and of its column's type and width) and nothing else, with a \<open>doc_id\<close> that no
  stored row has, succeeds with status 201. The record returned has \<open>doc_status\<close>
  \<^verbatim>\<open>Open\<close>, \<open>is_uploaded\<close> false, \<open>uploaded_file\<close>, \<open>file_size\<close>, \<open>storage_path\<close>, \<open>download_url\<close> and
  \<open>uploaded_at\<close> null, and \<open>created_at\<close> and \<open>updated_at\<close> equal to the controller's clock
  reading; its \<open>file_type\<close> is \<open>undefined\<close> (the value of
  \<^verbatim>\<open>simplifyFileType(file_type) || file_type?.substring(0, 50)\<close> for an absent \<open>file_type\<close>) and is
  stored as null. The row appended to the table is this record under the next key.
\<close>

theorem create_required_only:
  assumes "missingFields b = []" and "only_required b" and "required_fit b"
    and "doc_id b \<notin> doc_id ` set (table w)"
  shows "\<exists>r. createMasterPlanDoc w b =
           (w\<lparr>table := table w @ [r\<lparr>file_type := JNull\<rparr>],
               auto_increment := Suc (auto_increment w)\<rparr>,
            respond 201 (Created ''Master Plan Document created successfully'' r))
         \<and> doc_status r = JStr ''Open'' \<and> is_uploaded r = JBool False
         \<and> uploaded_file r = JNull \<and> file_type r = JUndefined \<and> file_size r = JNull
         \<and> storage_path r = JNull \<and> download_url r = JNull \<and> uploaded_at r = JNull
         \<and> created_at r = JDate (clock w) \<and> updated_at r = JDate (clock w)
         \<and> row_id r = auto_increment w
         \<and> doc_id r = doc_id b \<and> doc_type r = doc_type b \<and> doc_title r = doc_title b
         \<and> revision_no r = revision_no b \<and> year r = parseInt (year b)
         \<and> owner r = owner b \<and> status r = status b"
proof (intro exI conjI)
  show "createMasterPlanDoc w b =
     (w\<lparr>table := table w @ [(created_from w b)\<lparr>file_type := JNull\<rparr>],
         auto_increment := Suc (auto_increment w)\<rparr>,
      respond 201 (Created ''Master Plan Document created successfully'' (created_from w b)))"
    using assms by (rule required_only_created)
qed (simp_all add: created_from_def)

theorem create_required_only_witness:
  "missingFields doc1_request = [] \<and> only_required doc1_request \<and> required_fit doc1_request
   \<and> doc_id doc1_request \<notin> doc_id ` set (table empty_world)
   \<and> (\<exists>r. createMasterPlanDoc empty_world doc1_request =
           (doc1_world, respond 201 (Created ''Master Plan Document created successfully'' r))
         \<and> doc_status r = JStr ''Open'' \<and> is_uploaded r = JBool False)"
proof -
  have h: "missingFields doc1_request = []" "only_required doc1_request"
    "required_fit doc1_request" "doc_id doc1_request \<notin> doc_id ` set (table empty_world)"
    by (simp_all add: missingFields_def requiredFields_def only_required_def required_fit_def
        examples)
  from create_required_only [OF h] obtain r where
    r: "createMasterPlanDoc empty_world doc1_request =
           (empty_world\<lparr>table := table empty_world @ [r\<lparr>file_type := JNull\<rparr>],
               auto_increment := Suc (auto_increment empty_world)\<rparr>,
            respond 201 (Created ''Master Plan Document created successfully'' r))"
      "doc_status r = JStr ''Open''" "is_uploaded r = JBool False"
    by blast
  from r(1) have "createMasterPlanDoc empty_world doc1_request =
           (doc1_world, respond 201 (Created ''Master Plan Document created successfully'' r))"
    unfolding doc1_created by simp
  with h r(2,3) show ?thesis by blast
qed

text \<open>
  Claim C7 as stated, at the sample request of the specification: in a world where
  \<open>DOC-1\<close> is stored the request is answered 400, and in the empty world the \<open>file_type\<close> of
  the record returned is \<open>undefined\<close>, not null.
\<close>

theorem required_only_request_may_conflict:
  "missingFields doc1_request = [] \<and> only_required doc1_request
   \<and> createMasterPlanDoc doc1_world doc1_request =
       (doc1_world, respond 400 (Message ''Document ID already exists''))
   \<and> createMasterPlanDoc empty_world doc1_request =
       (doc1_world, respond 201 (Created ''Master Plan Document created successfully''
          (doc1_row\<lparr>file_type := JUndefined\<rparr>)))
   \<and> file_type (doc1_row\<lparr>file_type := JUndefined\<rparr>) \<noteq> JNull"
  by (simp add: doc1_created) (simp add: create_eval only_required_def examples)

section \<open>Uploading a file\<close>

text \<open>
  Claim C4. An upload request that carries a file of more than 10 MiB (10 * 1024 * 1024
  bytes) is rejected without any write: the world, and so the directories and files of
  the File Store, is unchanged. On the route the upload middleware answers 413 and the
  controller is not called; the controller on its own answers 400, with the size
  message, or with the metadata message when \<open>doc_id\<close>, \<open>doc_type\<close> or \<open>revision_no\<close> is
  missing (that check comes first). Both checks precede \<^verbatim>\<open>ensureUploadsDir\<close>.
\<close>

theorem upload_too_large_rejected:
  assumes "document req = Some f" and "up_size f > 10 * 1024 * 1024"
  shows "post_upload w req = (w, respond 413 (PlainText ''File size limit has been reached''))
         \<and> uploadFile w req =
             (w, respond 400 (UploadFailed
                (if \<not> truthy (doc_id (body req)) \<or> \<not> truthy (doc_type (body req))
                    \<or> \<not> truthy (revision_no (body req))
                 then ''All metadata (doc_id, doc_type, revision_no) is required for file upload''
                 else ''File size must be less than 10MB'')))"
  using assms by (simp add: post_upload_def uploadFile_def fileSize_limit_def)

theorem upload_too_large_rejected_witness:
  "document big_upload = Some (pdf_file\<lparr>up_size := 10 * 1024 * 1024 + 1\<rparr>)
   \<and> up_size (pdf_file\<lparr>up_size := 10 * 1024 * 1024 + 1\<rparr>) > 10 * 1024 * 1024
   \<and> post_upload empty_world big_upload =
       (empty_world, respond 413 (PlainText ''File size limit has been reached''))
   \<and> uploadFile empty_world big_upload =
       (empty_world, respond 400 (UploadFailed ''File size must be less than 10MB''))"
  using upload_too_large_rejected [of big_upload "pdf_file\<lparr>up_size := 10 * 1024 * 1024 + 1\<rparr>" empty_world]
  by (simp add: big_upload_def upload_doc1_def pdf_file_def no_attrs_def)

text \<open>
  Claim C8. The upload operation, whether it succeeds or fails, leaves the Document Store
  as it was: the table and its auto-increment counter are unchanged, for the controller
  and for the route.
\<close>

theorem upload_leaves_document_store:
  "table (fst (uploadFile w req)) = table w
   \<and> auto_increment (fst (uploadFile w req)) = auto_increment w
   \<and> table (fst (post_upload w req)) = table w
   \<and> auto_increment (fst (post_upload w req)) = auto_increment w"
proof -
  have u: "table (fst (uploadFile w req)) = table w
           \<and> auto_increment (fst (uploadFile w req)) = auto_increment w"
  proof (cases rule: uploadFile_cases [of w req])
    case (rejected msg)
    then show ?thesis by simp
  next
    case (crashed w1)
    then show ?thesis by simp
  next
    case (stored f d w1 w2 w3)
    have "table w2 = table w1 \<and> auto_increment w2 = auto_increment w1"
      using stored(4) mkdirSync_frame [of w1 _ w2] by (auto split: if_splits)
    with stored(6) ensureUploadsDir_frame [OF stored(3)] mv_frame [OF stored(5)]
    show ?thesis by simp
  qed
  then show ?thesis
    by (auto simp: post_upload_def split: option.splits)
qed

theorem upload_leaves_document_store_witness:
  "table (fst (uploadFile doc1_world upload_doc1)) = [doc1_row]
   \<and> auto_increment (fst (uploadFile doc1_world upload_doc1)) = 2
   \<and> table (fst (post_upload doc1_world big_upload)) = [doc1_row]"
  using upload_leaves_document_store [of doc1_world upload_doc1]
    upload_leaves_document_store [of doc1_world big_upload]
  by (simp add: doc1_world_def)

text \<open>
  Claim C6, amended. After a successful upload with document id \<open>d\<close>, file name \<open>n\<close> and
  clock reading \<open>t\<close>, the file name returned is \<open>d_b'_te\<close> and the storage path returned is
  \<^verbatim>\<open>/uploads/master-plans/\<close>\<open>d\<close>\<^verbatim>\<open>/\<close>\<open>d_b'_te\<close>, where \<open>e\<close> is \<^verbatim>\<open>path.extname(n)\<close> (empty, or the
  extension with its dot), \<open>b'\<close> is \<^verbatim>\<open>path.basename(n, e)\<close> and \<open>t\<close> is written in decimal. The
  base name \<open>b'\<close> is the last component of \<open>n\<close> without the extension: it holds no \<^verbatim>\<open>/\<close>,
  and \<open>b'\<close> followed by \<open>e\<close> is that component; no other character of the name is changed.
  The bytes are written at the path \<^verbatim>\<open>path.join\<close> makes of the uploads directory, \<open>d\<close> and
  the file name. When \<open>d\<close> is one plain path segment (not empty, without \<^verbatim>\<open>/\<close>, neither
  \<^verbatim>\<open>.\<close> nor \<^verbatim>\<open>..\<close>), that is the file named \<open>d_b'_te\<close> in the folder \<open>d\<close> of
  \<^verbatim>\<open>uploads/master-plans\<close>, two levels above the controller's directory.
\<close>

theorem upload_storage_path:
  assumes "snd (uploadFile w req) = respond 200 (UploadDone m info)"
  shows "\<exists>d f b' e.
           doc_id (body req) = JStr d \<and> document req = Some f
         \<and> e = path_extname (up_name f) \<and> b' = path_basename (up_name f) e
         \<and> fileName info = d @ ''_'' @ b' @ ''_'' @ string_of_nat (clock w) @ e
         \<and> storagePath info = ''/uploads/master-plans/'' @ d @ ''/'' @ fileName info
         \<and> downloadUrl info = ''/api/masterplandocs/download/'' @ d @ ''/'' @ fileName info
         \<and> b' @ e = last_component (up_name f)
         \<and> CHR ''/'' \<notin> set b'
         \<and> (e = [] \<or> hd e = CHR ''.'')
         \<and> files (fst (uploadFile w req))
               (fs_key (path_join [path_join [uploadsDir_path w, d], fileName info]))
             = Some (up_data f)
         \<and> (plain_segment d \<longrightarrow>
               files (fst (uploadFile w req))
                 (butlast (butlast (fs_key (dirname w)))
                    @ [''uploads'', ''master-plans'', d, fileName info])
               = Some (up_data f))"
proof (cases rule: uploadFile_cases [of w req])
  case (rejected msg)
  with assms show ?thesis by simp
next
  case (crashed w1)
  with assms show ?thesis by (simp add: upload_crashed_def)
next
  case (stored f d w1 w2 w3)
  let ?e = "path_extname (up_name f)"
  let ?b = "path_basename (up_name f) ?e"
  let ?n = "uniqueFileName_of d (up_name f) (clock w)"
  let ?path = "path_join [path_join [uploadsDir_path w, d], ?n]"
  from assms stored(6) have info: "fileName info = ?n"
    "storagePath info = ''/uploads/master-plans/'' @ d @ ''/'' @ ?n"
    "downloadUrl info = ''/api/masterplandocs/download/'' @ d @ ''/'' @ ?n"
    by auto
  have n: "?n = d @ ''_'' @ ?b @ ''_'' @ string_of_nat (clock w) @ ?e"
    by (simp add: uniqueFileName_of_def Let_def)
  have dot: "?e = [] \<or> hd ?e = CHR ''.''"
    by (cases "up_name f" rule: extname_cases) auto
  have up: "uploadsDir_path w1 = uploadsDir_path w"
    using ensureUploadsDir_frame(3) [OF stored(3)] by (rule uploadsDir_path_cong)
  have "files w3 (fs_key ?path) = Some (up_data f)"
    using mv_frame(4) [OF stored(5)] up by simp
  then have at: "files (fst (uploadFile w req)) (fs_key ?path) = Some (up_data f)"
    using stored(6) by simp
  have key: "fs_key ?path =
      butlast (butlast (fs_key (dirname w))) @ [''uploads'', ''master-plans'', d, ?n]"
    if d: "plain_segment d"
  proof -
    from d have "CHR ''/'' \<notin> set d" by (simp add: plain_segment_def)
    then have "plain_segment ?n" by (rule uniqueFileName_plain)
    then have "fs_key ?path = fs_key (path_join [uploadsDir_path w, d]) @ [?n]"
      by (intro fs_key_join_plain) simp_all
    also have "fs_key (path_join [uploadsDir_path w, d]) = fs_key (uploadsDir_path w) @ [d]"
      using d by (intro fs_key_join_plain) (simp_all add: uploadsDir_path_def)
    finally show ?thesis by (simp add: fs_key_uploadsDir)
  qed
  have fl: "files (fst (uploadFile w req))
      (fs_key (path_join [path_join [uploadsDir_path w, d], fileName info])) = Some (up_data f)"
    using at info(1) by simp
  have pl: "plain_segment d \<longrightarrow>
      files (fst (uploadFile w req))
        (butlast (butlast (fs_key (dirname w)))
           @ [''uploads'', ''master-plans'', d, fileName info]) = Some (up_data f)"
  proof
    assume "plain_segment d"
    from key [OF this] at info(1) show
      "files (fst (uploadFile w req))
        (butlast (butlast (fs_key (dirname w)))
           @ [''uploads'', ''master-plans'', d, fileName info]) = Some (up_data f)"
      by simp
  qed
  show ?thesis
    using stored(1,2) info n [symmetric] dot fl pl basename_extname [of "up_name f"]
    by (intro exI [of _ d] exI [of _ f] exI [of _ ?b] exI [of _ ?e]) simp
qed

theorem upload_storage_path_witness:
  "snd (uploadFile empty_world upload_doc1) =
     respond 200 (UploadDone ''File uploaded successfully and stored permanently''
       \<lparr>fileName = ''DOC-1_my report_1700000000000.pdf'',
        originalName = ''my report.pdf'',
        fileSize = 1024,
        fileType = ''application/pdf'',
        storagePath = ''/uploads/master-plans/DOC-1/DOC-1_my report_1700000000000.pdf'',
        downloadUrl =
          ''/api/masterplandocs/download/DOC-1/DOC-1_my report_1700000000000.pdf''\<rparr>)
   \<and> plain_segment ''DOC-1''
   \<and> files (fst (uploadFile empty_world upload_doc1))
        [''srv'', ''uploads'', ''master-plans'', ''DOC-1'', ''DOC-1_my report_1700000000000.pdf'']
       = Some ''%PDF''"
proof -
  let ?info = "\<lparr>fileName = ''DOC-1_my report_1700000000000.pdf'',
        originalName = ''my report.pdf'',
        fileSize = 1024,
        fileType = ''application/pdf'',
        storagePath = ''/uploads/master-plans/DOC-1/DOC-1_my report_1700000000000.pdf'',
        downloadUrl =
          ''/api/masterplandocs/download/DOC-1/DOC-1_my report_1700000000000.pdf''\<rparr>"
  from upload_storage_path [OF upload_doc1_done] obtain d f where
    d: "doc_id (body upload_doc1) = JStr d" and f: "document upload_doc1 = Some f"
    and at: "plain_segment d \<longrightarrow>
       files (fst (uploadFile empty_world upload_doc1))
         (butlast (butlast (fs_key (dirname empty_world)))
            @ [''uploads'', ''master-plans'', d, fileName ?info]) = Some (up_data f)"
    by blast
  from d have d1: "d = ''DOC-1''" by (simp add: upload_doc1_def no_attrs_def)
  from f have f1: "up_data f = ''%PDF''" by (auto simp: upload_doc1_def pdf_file_def)
  have p: "plain_segment ''DOC-1''" by (simp add: plain_segment_def)
  have k: "butlast (butlast (fs_key (dirname empty_world))) = [''srv'']"
    by (simp add: fs_key_def segments_def normalize_step_def empty_world_def)
  from at p show ?thesis
    unfolding d1 f1 k by (simp add: upload_doc1_done)
qed

text \<open>
  Claim C6 as stated, at the \<open>doc_id\<close> \<^verbatim>\<open>../x\<close>, which the controller accepts: the upload
  succeeds and returns the storage path of the template, but the one file written is
  \<^verbatim>\<open>uploads/x_my report_1700000000000.pdf\<close>, outside \<^verbatim>\<open>master-plans\<close>, and its name holds
  neither the \<open>doc_id\<close> nor the file name returned.
\<close>

theorem upload_path_like_doc_id_stored_elsewhere:
  "snd (uploadFile empty_world traversal_upload) =
      respond 200 (UploadDone ''File uploaded successfully and stored permanently''
       \<lparr>fileName = ''../x_my report_1700000000000.pdf'',
        originalName = ''my report.pdf'',
        fileSize = 1024,
        fileType = ''application/pdf'',
        storagePath =
          ''/uploads/master-plans/../x/../x_my report_1700000000000.pdf'',
        downloadUrl =
          ''/api/masterplandocs/download/../x/../x_my report_1700000000000.pdf''\<rparr>)
   \<and> files (fst (uploadFile empty_world traversal_upload)) =
       [[''srv'', ''uploads'', ''x_my report_1700000000000.pdf''] \<mapsto> ''%PDF'']"
  by (simp add: uploadFile_def ensureUploadsDir_def uploadsDir_path_def existsSync_def
      mkdirSync_def mv_def fs_key_def segments_def normalize_step_def path_join_def
      path_normalize_def allowedTypes_def Let_def traversal_upload_def
      pdf_file_def empty_world_def no_attrs_def name_traversal)

section \<open>The client's uniqueness check\<close>

text \<open>
  Claim C2. The server's operation \<^verbatim>\<open>GET /check-doc-id/:doc_id\<close> answers whether a document
  with this \<open>doc_id\<close> is stored. The client's check does not call it: it fetches
  \<^verbatim>\<open>/masterplandocs/${doc_id}\<close>, the route \<^verbatim>\<open>GET /:id\<close> that looks a document up by its
  surrogate key, and takes \<^verbatim>\<open>response.ok\<close>. With \<open>DOC-1\<close> stored under key 1, the check of
  \<open>DOC-1\<close> answers false and clears the field's error, and the check of \<open>1\<close>, which is no
  stored \<open>doc_id\<close>, answers true and sets it.
\<close>

theorem client_check_asks_wrong_route:
  "findOne_doc_id (table doc1_world) (JStr ''DOC-1'') = Some doc1_row
   \<and> checkDocIdExists doc1_world ''DOC-1'' = respond 200 (Exists True)
   \<and> route_get doc1_world ''/check-doc-id/DOC-1'' = respond 200 (Exists True)
   \<and> route_get doc1_world ''/DOC-1'' = respond 404 (Message ''Master Plan Document not found'')
   \<and> service_checkDocIdExists doc1_world ''DOC-1'' = False
   \<and> checkDocId doc1_world None ''DOC-1'' = None
   \<and> findOne_doc_id (table doc1_world) (JStr ''1'') = None
   \<and> route_get doc1_world ''/1'' = respond 200 (Data doc1_row)
   \<and> service_checkDocIdExists doc1_world ''1'' = True
   \<and> checkDocId doc1_world None ''1'' = Some ''Document ID already exists''"
  by (simp add: checkDocId_def service_checkDocIdExists_def route_get_def checkDocIdExists_def
      getMasterPlanDocById_def findByPk_def findOne_doc_id_def response_ok_def key_numeral
      doc1_world_def doc1_row_def empty_world_def)

end
